theory Spec2Isabelle
  imports Main
begin

section \<open>The client package of zitadel-go: data model\<close>

text \<open>
  The embedding follows \<^verbatim>\<open>pkg/client/client.go\<close>. A Go function returning
  \<^verbatim>\<open>(T, error)\<close> returns a pair here, whose second component is \<open>None\<close> for a
  \<^verbatim>\<open>nil\<close> error; a pointer or interface value that the code tests against
  \<^verbatim>\<open>nil\<close>, or that may be \<^verbatim>\<open>nil\<close>, is an \<open>option\<close>.
  Everything the package calls outside itself may read and change the outside world (the
  network, a token endpoint, the certificate store): such a call takes the world \<open>'w\<close>
  and returns the new one.
\<close>

datatype error = Error string

text \<open>
  \<^verbatim>\<open>*zitadel.Zitadel\<close> is declared in another package. \<^verbatim>\<open>New\<close> only calls its four
  getters, so the endpoint is the record of what they return.
\<close>

record Zitadel =
  Origin :: string
  Host :: string
  Domain :: string
  IsTLS :: bool

text \<open>
  \<^verbatim>\<open>oauth2.TokenSource\<close>: an object with one method \<^verbatim>\<open>Token()\<close>, which yields a
  token or an error and may change the world (a refresh). \<^verbatim>\<open>TokenSourceInitializer\<close> is
  called in \<^verbatim>\<open>New\<close> as \<^verbatim>\<open>initTokenSource(ctx, zitadel.Origin())\<close> and returns
  \<^verbatim>\<open>(oauth2.TokenSource, error)\<close>.
\<close>

type_synonym 'w TokenSource = "'w \<Rightarrow> (error + string) \<times> 'w"

type_synonym ('ctx, 'w) TokenSourceInitializer =
  "'ctx \<Rightarrow> string \<Rightarrow> 'w \<Rightarrow> ('w TokenSource option \<times> error option) \<times> 'w"

text \<open>
  The struct \<^verbatim>\<open>cred\<close>, as the literal \<^verbatim>\<open>&cred{tls: ..., tokenSource: ...}\<close> of
  \<^verbatim>\<open>newConnection\<close> fills it.
\<close>

record 'w cred =
  tls :: bool
  tokenSource :: "'w TokenSource option"

text \<open>
  \<^verbatim>\<open>grpc.DialOption\<close>: the two options \<^verbatim>\<open>newConnection\<close> makes itself, and any
  other option a caller hands to \<^verbatim>\<open>WithGRPCDialOptions\<close>, which the package never
  looks into.
\<close>

datatype ('w, 'tc, 'o) DialOption =
    WithTransportCredentials 'tc
  | WithPerRPCCredentials "'w cred"
  | CallerDialOption 'o

record ('ctx, 'w, 'tc, 'o) clientOptions =
  initTokenSource :: "('ctx, 'w) TokenSourceInitializer option"
  grpcDialOptions :: "('w, 'tc, 'o) DialOption list"

text \<open>
  \<^verbatim>\<open>type Option func(*clientOptions)\<close>: a function that updates the configuration it is
  given. The type \<^verbatim>\<open>clientOptions\<close> is unexported, so a caller obtains an
  \<^verbatim>\<open>Option\<close> from \<^verbatim>\<open>WithAuth\<close> or \<^verbatim>\<open>WithGRPCDialOptions\<close>; a \<^verbatim>\<open>nil\<close>
  \<^verbatim>\<open>Option\<close> in the argument list (a panic when \<^verbatim>\<open>New\<close> calls it) is outside
  the embedding.
\<close>

type_synonym ('ctx, 'w, 'tc, 'o) Option =
  "('ctx, 'w, 'tc, 'o) clientOptions \<Rightarrow> ('ctx, 'w, 'tc, 'o) clientOptions"

definition WithAuth ::
  "('ctx, 'w) TokenSourceInitializer option \<Rightarrow> ('ctx, 'w, 'tc, 'o) Option" where
  "WithAuth initTS = (\<lambda>c. c\<lparr>initTokenSource := initTS\<rparr>)"

definition WithGRPCDialOptions ::
  "('w, 'tc, 'o) DialOption list \<Rightarrow> ('ctx, 'w, 'tc, 'o) Option" where
  "WithGRPCDialOptions opts = (\<lambda>c. c\<lparr>grpcDialOptions := grpcDialOptions c @ opts\<rparr>)"

subsection \<open>Service stubs and the handle\<close>

text \<open>
  The fourteen generated packages, named as \<^verbatim>\<open>client.go\<close> imports them.
\<close>

datatype service =
    system_pb | admin_pb | management_pb | userV2Beta_pb | userV2_pb | auth_pb
  | settingsV2Beta_pb | settingsV2_pb | sessionV2Beta_pb | sessionV2_pb
  | orgV2Beta_pb | orgV2_pb | oidcV2Beta_pb | oidcV2_pb

text \<open>
  The stub constructors (\<^verbatim>\<open>system.NewSystemServiceClient\<close> and its thirteen siblings)
  are generated code of the fourteen packages. They are a parameter of \<^verbatim>\<open>New\<close> here:
  one family \<open>NewServiceClient\<close>, indexed by the package, that takes the connection and
  returns the stub, an interface value of type \<open>'stub option\<close>. The handle keeps what they
  return.
\<close>

record 'stub Client =
  systemService :: "'stub option"
  adminService :: "'stub option"
  managementService :: "'stub option"
  userService :: "'stub option"
  userServiceV2 :: "'stub option"
  authService :: "'stub option"
  settingsService :: "'stub option"
  settingsServiceV2 :: "'stub option"
  sessionService :: "'stub option"
  sessionServiceV2 :: "'stub option"
  organizationService :: "'stub option"
  organizationServiceV2 :: "'stub option"
  oidcService :: "'stub option"
  oidcServiceV2 :: "'stub option"

subsection \<open>Calls to the outside\<close>

text \<open>
  The state threaded through \<^verbatim>\<open>New\<close>: the outside world, and a log of the calls the
  package has made to its collaborators, oldest first. The log is not in the Go code; it
  is what lets a theorem say which collaborator was called, with which arguments, and
  how often.
\<close>

datatype ('ctx, 'w, 'tc, 'o) call =
    InitTokenSourceCall 'ctx string
  | TransportCredentialsCall string bool
  | DialContextCall 'ctx string "('w, 'tc, 'o) DialOption list"

record ('ctx, 'w, 'tc, 'o) state =
  world :: 'w
  calls :: "('ctx, 'w, 'tc, 'o) call list"

definition ext_call ::
  "('ctx, 'w, 'tc, 'o) call \<Rightarrow> ('w \<Rightarrow> 'a \<times> 'w) \<Rightarrow> ('ctx, 'w, 'tc, 'o) state
    \<Rightarrow> 'a \<times> ('ctx, 'w, 'tc, 'o) state" where
  "ext_call ev f s =
     (case f (world s) of (r, w') \<Rightarrow> (r, \<lparr>world = w', calls = calls s @ [ev]\<rparr>))"

section \<open>Building the connection\<close>

text \<open>
  \<^verbatim>\<open>transportCredentials\<close> (another file of the package) and \<^verbatim>\<open>grpc.DialContext\<close>
  are parameters: \<^verbatim>\<open>newConnection\<close> is verified for whatever they return.
\<close>

definition newConnection ::
  "(string \<Rightarrow> bool \<Rightarrow> 'w \<Rightarrow> ('tc \<times> error option) \<times> 'w)
    \<Rightarrow> ('ctx \<Rightarrow> string \<Rightarrow> ('w, 'tc, 'o) DialOption list \<Rightarrow> 'w \<Rightarrow> ('conn option \<times> error option) \<times> 'w)
    \<Rightarrow> 'ctx \<Rightarrow> Zitadel \<Rightarrow> 'w TokenSource option \<Rightarrow> ('w, 'tc, 'o) DialOption list
    \<Rightarrow> ('ctx, 'w, 'tc, 'o) state
    \<Rightarrow> ('conn option \<times> error option) \<times> ('ctx, 'w, 'tc, 'o) state" where
  "newConnection transportCredentials DialContext ctx zitadel tokenSrc opts s =
     (case ext_call (TransportCredentialsCall (Domain zitadel) (IsTLS zitadel))
             (transportCredentials (Domain zitadel) (IsTLS zitadel)) s of
        ((transportCreds, Some err), s1) \<Rightarrow> ((None, Some err), s1)
      | ((transportCreds, None), s1) \<Rightarrow>
          (let dialOptions =
                 [WithTransportCredentials transportCreds,
                  WithPerRPCCredentials \<lparr>tls = IsTLS zitadel, tokenSource = tokenSrc\<rparr>] @ opts
           in ext_call (DialContextCall ctx (Host zitadel) dialOptions)
                (DialContext ctx (Host zitadel) dialOptions) s1))"

text \<open>
  Lines 67 to 70 of \<^verbatim>\<open>New\<close>: the options are applied in the order given, to the zero
  value of \<^verbatim>\<open>clientOptions\<close>.
\<close>

definition applyOptions ::
  "('ctx, 'w, 'tc, 'o) Option list \<Rightarrow> ('ctx, 'w, 'tc, 'o) clientOptions" where
  "applyOptions opts = fold (\<lambda>opt c. opt c) opts \<lparr>initTokenSource = None, grpcDialOptions = []\<rparr>"

definition New ::
  "(string \<Rightarrow> bool \<Rightarrow> 'w \<Rightarrow> ('tc \<times> error option) \<times> 'w)
    \<Rightarrow> ('ctx \<Rightarrow> string \<Rightarrow> ('w, 'tc, 'o) DialOption list \<Rightarrow> 'w \<Rightarrow> ('conn option \<times> error option) \<times> 'w)
    \<Rightarrow> (service \<Rightarrow> 'conn option \<Rightarrow> 'stub option)
    \<Rightarrow> 'ctx \<Rightarrow> Zitadel \<Rightarrow> ('ctx, 'w, 'tc, 'o) Option list
    \<Rightarrow> ('ctx, 'w, 'tc, 'o) state
    \<Rightarrow> ('stub Client option \<times> error option) \<times> ('ctx, 'w, 'tc, 'o) state" where
  "New transportCredentials DialContext NewServiceClient ctx zitadel opts s =
     (let options = applyOptions opts in
      case (case initTokenSource options of
              None \<Rightarrow> ((None, None), s)
            | Some initTS \<Rightarrow>
                ext_call (InitTokenSourceCall ctx (Origin zitadel)) (initTS ctx (Origin zitadel)) s) of
        ((source, Some err), s1) \<Rightarrow> ((None, Some err), s1)
      | ((source, None), s1) \<Rightarrow>
          (case newConnection transportCredentials DialContext ctx zitadel source
                  (grpcDialOptions options) s1 of
             ((conn, Some err), s2) \<Rightarrow> ((None, Some err), s2)
           | ((conn, None), s2) \<Rightarrow>
               ((Some \<lparr>systemService = NewServiceClient system_pb conn,
                       adminService = NewServiceClient admin_pb conn,
                       managementService = NewServiceClient management_pb conn,
                       userService = NewServiceClient userV2Beta_pb conn,
                       userServiceV2 = NewServiceClient userV2_pb conn,
                       authService = NewServiceClient auth_pb conn,
                       settingsService = NewServiceClient settingsV2Beta_pb conn,
                       settingsServiceV2 = NewServiceClient settingsV2_pb conn,
                       sessionService = NewServiceClient sessionV2Beta_pb conn,
                       sessionServiceV2 = NewServiceClient sessionV2_pb conn,
                       organizationService = NewServiceClient orgV2Beta_pb conn,
                       organizationServiceV2 = NewServiceClient orgV2_pb conn,
                       oidcService = NewServiceClient oidcV2Beta_pb conn,
                       oidcServiceV2 = NewServiceClient oidcV2_pb conn\<rparr>, None), s2)))"

section \<open>The accessors of the handle\<close>

text \<open>
  Each accessor is a method on \<^verbatim>\<open>*Client\<close>. A method with a pointer receiver may
  write to its receiver, so the embedding returns the receiver after the call next to
  the result.
\<close>

definition SystemService :: "'stub Client \<Rightarrow> 'stub option \<times> 'stub Client" where
  "SystemService c = (systemService c, c)"

definition AdminService :: "'stub Client \<Rightarrow> 'stub option \<times> 'stub Client" where
  "AdminService c = (adminService c, c)"

definition ManagementService :: "'stub Client \<Rightarrow> 'stub option \<times> 'stub Client" where
  "ManagementService c = (managementService c, c)"

definition AuthService :: "'stub Client \<Rightarrow> 'stub option \<times> 'stub Client" where
  "AuthService c = (authService c, c)"

definition UserService :: "'stub Client \<Rightarrow> 'stub option \<times> 'stub Client" where
  "UserService c = (userService c, c)"

definition UserServiceV2 :: "'stub Client \<Rightarrow> 'stub option \<times> 'stub Client" where
  "UserServiceV2 c = (userServiceV2 c, c)"

definition SettingsService :: "'stub Client \<Rightarrow> 'stub option \<times> 'stub Client" where
  "SettingsService c = (settingsService c, c)"

definition SettingsServiceV2 :: "'stub Client \<Rightarrow> 'stub option \<times> 'stub Client" where
  "SettingsServiceV2 c = (settingsServiceV2 c, c)"

definition SessionService :: "'stub Client \<Rightarrow> 'stub option \<times> 'stub Client" where
  "SessionService c = (sessionService c, c)"

definition SessionServiceV2 :: "'stub Client \<Rightarrow> 'stub option \<times> 'stub Client" where
  "SessionServiceV2 c = (sessionServiceV2 c, c)"

definition OIDCService :: "'stub Client \<Rightarrow> 'stub option \<times> 'stub Client" where
  "OIDCService c = (oidcService c, c)"

definition OIDCServiceV2 :: "'stub Client \<Rightarrow> 'stub option \<times> 'stub Client" where
  "OIDCServiceV2 c = (oidcServiceV2 c, c)"

definition OrganizationService :: "'stub Client \<Rightarrow> 'stub option \<times> 'stub Client" where
  "OrganizationService c = (organizationService c, c)"

definition OrganizationServiceV2 :: "'stub Client \<Rightarrow> 'stub option \<times> 'stub Client" where
  "OrganizationServiceV2 c = (organizationServiceV2 c, c)"

section \<open>The credential provider\<close>

text \<open>
  Modelled from the spec: the methods of \<^verbatim>\<open>cred\<close> are in a file of the package that
  is not among the sources. The spec, section 4.1: \<open>GetRequestMetadata\<close> "if no token
  source was configured, returns an empty mapping and no error"; otherwise it "invokes
  it to obtain the current valid token" and "returns a single entry mapping the
  authorization header name to a bearer-scheme token value" (in the spec's scenario the
  token \<^verbatim>\<open>tok123\<close> gives \<^verbatim>\<open>{"authorization": "Bearer tok123"}\<close>); it "fails with a
  propagated error if the token source cannot produce a token".
\<close>

definition GetRequestMetadata ::
  "'ctx \<Rightarrow> 'w cred \<Rightarrow> 'w \<Rightarrow> ((string \<rightharpoonup> string) \<times> error option) \<times> 'w" where
  "GetRequestMetadata ctx c w =
     (case tokenSource c of
        None \<Rightarrow> ((Map.empty, None), w)
      | Some ts \<Rightarrow>
          (case ts w of
             (Inl err, w') \<Rightarrow> ((Map.empty, Some err), w')
           | (Inr tok, w') \<Rightarrow> (([''authorization'' \<mapsto> ''Bearer '' @ tok], None), w')))"

text \<open>
  Modelled from the spec: \<open>RequiresTransportSecurity\<close> of \<^verbatim>\<open>cred\<close>, not among the
  sources either, "returns true iff the connection was configured as TLS".
\<close>

definition RequiresTransportSecurity :: "'w cred \<Rightarrow> bool" where
  "RequiresTransportSecurity c = tls c"

section \<open>Vocabulary of the statements\<close>

text \<open>
  The first step of \<^verbatim>\<open>New\<close> (lines 72 to 79) has gone through without an error, from
  the world \<open>w\<close>: either no initializer is configured, so that \<open>source\<close> stays
  \<^verbatim>\<open>nil\<close> and the world is untouched, or the configured initializer, called with the
  context and the origin, has returned \<open>source\<close> and no error, leaving the world \<open>w1\<close>.
\<close>

definition tokenSourceObtained ::
  "'ctx \<Rightarrow> Zitadel \<Rightarrow> ('ctx, 'w, 'tc, 'o) Option list \<Rightarrow> 'w \<Rightarrow> 'w TokenSource option \<Rightarrow> 'w \<Rightarrow> bool" where
  "tokenSourceObtained ctx zitadel opts w source w1 =
     (case initTokenSource (applyOptions opts) of
        None \<Rightarrow> source = None \<and> w1 = w
      | Some initTS \<Rightarrow> initTS ctx (Origin zitadel) w = ((source, None), w1))"

text \<open>The calls that first step logs: none, or the one call of the initializer.\<close>

definition initCalls ::
  "'ctx \<Rightarrow> Zitadel \<Rightarrow> ('ctx, 'w, 'tc, 'o) Option list \<Rightarrow> ('ctx, 'w, 'tc, 'o) call list" where
  "initCalls ctx zitadel opts =
     (case initTokenSource (applyOptions opts) of
        None \<Rightarrow> []
      | Some initTS \<Rightarrow> [InitTokenSourceCall ctx (Origin zitadel)])"

text \<open>The accessors of \<^verbatim>\<open>*Client\<close>, in the order of the source file.\<close>

definition accessors :: "('stub Client \<Rightarrow> 'stub option \<times> 'stub Client) list" where
  "accessors =
     [SystemService, AdminService, ManagementService, AuthService, UserService,
      UserServiceV2, SettingsService, SettingsServiceV2, SessionService, SessionServiceV2,
      OIDCService, OIDCServiceV2, OrganizationService, OrganizationServiceV2]"

subsection \<open>A concrete setting\<close>

text \<open>
  The endpoint of the spec's scenarios, and collaborators to run \<^verbatim>\<open>New\<close> with: the
  world is a counter that every call from outside the package increments, a context is a
  number, transport credentials are the TLS flag they were made for, a connection is a
  number and a stub is the pair of its package and its connection.
\<close>

definition exampleEndpoint :: Zitadel where
  "exampleEndpoint =
     \<lparr>Origin = ''https://example.com:443'', Host = ''example.com:443'',
      Domain = ''example.com'', IsTLS = True\<rparr>"

definition plainEndpoint :: Zitadel where
  "plainEndpoint =
     \<lparr>Origin = ''http://localhost:8080'', Host = ''localhost:8080'',
      Domain = ''localhost'', IsTLS = False\<rparr>"

definition exampleCredentials :: "string \<Rightarrow> bool \<Rightarrow> nat \<Rightarrow> (bool \<times> error option) \<times> nat" where
  "exampleCredentials domain tlsOn w = ((tlsOn, None), Suc w)"

definition failingCredentials :: "string \<Rightarrow> bool \<Rightarrow> nat \<Rightarrow> (bool \<times> error option) \<times> nat" where
  "failingCredentials domain tlsOn w = ((False, Some (Error ''no system cert pool'')), Suc w)"

definition exampleDial ::
  "nat \<Rightarrow> string \<Rightarrow> (nat, bool, string) DialOption list \<Rightarrow> nat
    \<Rightarrow> (nat option \<times> error option) \<times> nat" where
  "exampleDial ctx target dialOptions w = ((Some 7, None), Suc w)"

definition failingDial ::
  "nat \<Rightarrow> string \<Rightarrow> (nat, bool, string) DialOption list \<Rightarrow> nat
    \<Rightarrow> (nat option \<times> error option) \<times> nat" where
  "failingDial ctx target dialOptions w = ((Some 7, Some (Error ''connection refused'')), Suc w)"

definition exampleStub :: "service \<Rightarrow> nat option \<Rightarrow> (service \<times> nat option) option" where
  "exampleStub pkg conn = Some (pkg, conn)"

text \<open>
  A token source that yields \<^verbatim>\<open>tok123\<close> first and \<^verbatim>\<open>tok456\<close> from then on, and
  initializers that return it, return another one, or fail.
\<close>

definition exampleTokens :: "nat TokenSource" where
  "exampleTokens w = (Inr (if w = 0 then ''tok123'' else ''tok456''), Suc w)"

definition otherTokens :: "nat TokenSource" where
  "otherTokens w = (Inr ''other'', Suc w)"

definition exampleInit :: "(nat, nat) TokenSourceInitializer" where
  "exampleInit ctx origin w = ((Some exampleTokens, None), Suc w)"

definition otherInit :: "(nat, nat) TokenSourceInitializer" where
  "otherInit ctx origin w = ((Some otherTokens, None), w + 10)"

definition failingInit :: "(nat, nat) TokenSourceInitializer" where
  "failingInit ctx origin w = ((Some exampleTokens, Some (Error ''invalid key file'')), Suc w)"

text \<open>
  An initializer that looks at its arguments: it accepts the context \<open>5\<close> with the origin
  of \<open>exampleEndpoint\<close> and refuses anything else, the host and the domain included.
\<close>

definition issuerCheckingInit :: "(nat, nat) TokenSourceInitializer" where
  "issuerCheckingInit ctx origin w =
     (if ctx = 5 \<and> origin = ''https://example.com:443''
      then ((Some exampleTokens, None), Suc w)
      else ((None, Some (Error ''unknown issuer'')), Suc w))"

section \<open>The runs of \<^verbatim>\<open>newConnection\<close> and \<^verbatim>\<open>New\<close>\<close>

lemma state_eta: "\<lparr>world = world s, calls = calls s\<rparr> = (s :: ('ctx, 'w, 'tc, 'o) state)"
  by simp

lemma ext_call_eq:
  "f (world s) = (r, w') \<Longrightarrow> ext_call ev f s = (r, \<lparr>world = w', calls = calls s @ [ev]\<rparr>)"
  by (simp add: ext_call_def)

lemma newConnection_creds_error:
  assumes "transportCredentials (Domain z) (IsTLS z) (world s) = ((t, Some e), w1)"
  shows "newConnection transportCredentials DialContext ctx z src opts s =
           ((None, Some e),
            \<lparr>world = w1, calls = calls s @ [TransportCredentialsCall (Domain z) (IsTLS z)]\<rparr>)"
  using assms by (simp add: newConnection_def ext_call_def)

lemma newConnection_dial:
  assumes "transportCredentials (Domain z) (IsTLS z) (world s) = ((t, None), w1)"
    and "DialContext ctx (Host z)
           (WithTransportCredentials t
              # WithPerRPCCredentials \<lparr>tls = IsTLS z, tokenSource = src\<rparr> # opts) w1 = (r, w2)"
  shows "newConnection transportCredentials DialContext ctx z src opts s =
           (r, \<lparr>world = w2,
                calls = calls s @
                  [TransportCredentialsCall (Domain z) (IsTLS z),
                   DialContextCall ctx (Host z)
                     (WithTransportCredentials t
                        # WithPerRPCCredentials \<lparr>tls = IsTLS z, tokenSource = src\<rparr> # opts)]\<rparr>)"
  using assms by (simp add: newConnection_def ext_call_def)

lemma New_init_error:
  assumes "initTokenSource (applyOptions opts) = Some initTS"
    and "initTS ctx (Origin z) (world s) = ((src, Some e), w1)"
  shows "New transportCredentials DialContext NewServiceClient ctx z opts s =
           ((None, Some e),
            \<lparr>world = w1, calls = calls s @ [InitTokenSourceCall ctx (Origin z)]\<rparr>)"
  using assms by (simp add: New_def ext_call_def)

lemma New_connect:
  assumes "tokenSourceObtained ctx z opts (world s) src w1"
  shows "New transportCredentials DialContext NewServiceClient ctx z opts s =
     (case newConnection transportCredentials DialContext ctx z src
             (grpcDialOptions (applyOptions opts))
             \<lparr>world = w1, calls = calls s @ initCalls ctx z opts\<rparr> of
             ((conn, Some err), s2) \<Rightarrow> ((None, Some err), s2)
           | ((conn, None), s2) \<Rightarrow>
               ((Some \<lparr>systemService = NewServiceClient system_pb conn,
                       adminService = NewServiceClient admin_pb conn,
                       managementService = NewServiceClient management_pb conn,
                       userService = NewServiceClient userV2Beta_pb conn,
                       userServiceV2 = NewServiceClient userV2_pb conn,
                       authService = NewServiceClient auth_pb conn,
                       settingsService = NewServiceClient settingsV2Beta_pb conn,
                       settingsServiceV2 = NewServiceClient settingsV2_pb conn,
                       sessionService = NewServiceClient sessionV2Beta_pb conn,
                       sessionServiceV2 = NewServiceClient sessionV2_pb conn,
                       organizationService = NewServiceClient orgV2Beta_pb conn,
                       organizationServiceV2 = NewServiceClient orgV2_pb conn,
                       oidcService = NewServiceClient oidcV2Beta_pb conn,
                       oidcServiceV2 = NewServiceClient oidcV2_pb conn\<rparr>, None), s2))"
proof (cases "initTokenSource (applyOptions opts)")
  case None
  with assms have "src = None" "w1 = world s"
    by (simp_all add: tokenSourceObtained_def)
  with None show ?thesis
    by (simp add: New_def initCalls_def state_eta)
next
  case (Some initTS)
  with assms have "initTS ctx (Origin z) (world s) = ((src, None), w1)"
    by (simp add: tokenSourceObtained_def)
  with Some show ?thesis
    by (simp add: New_def initCalls_def ext_call_def)
qed


lemma New_creds_error:
  assumes "tokenSourceObtained ctx z opts (world s) src w1"
    and "transportCredentials (Domain z) (IsTLS z) w1 = ((t, Some e), w2)"
  shows "New transportCredentials DialContext NewServiceClient ctx z opts s =
           ((None, Some e),
            \<lparr>world = w2,
             calls = calls s @ initCalls ctx z opts @
               [TransportCredentialsCall (Domain z) (IsTLS z)]\<rparr>)"
  using assms(2) by (simp add: New_connect [OF assms(1)] newConnection_creds_error)

lemma New_dial_error:
  assumes "tokenSourceObtained ctx z opts (world s) src w1"
    and "transportCredentials (Domain z) (IsTLS z) w1 = ((t, None), w2)"
    and "DialContext ctx (Host z)
           (WithTransportCredentials t
              # WithPerRPCCredentials \<lparr>tls = IsTLS z, tokenSource = src\<rparr>
              # grpcDialOptions (applyOptions opts)) w2 = ((conn, Some e), w3)"
  shows "New transportCredentials DialContext NewServiceClient ctx z opts s =
           ((None, Some e),
            \<lparr>world = w3,
             calls = calls s @ initCalls ctx z opts @
               [TransportCredentialsCall (Domain z) (IsTLS z),
                DialContextCall ctx (Host z)
                  (WithTransportCredentials t
                     # WithPerRPCCredentials \<lparr>tls = IsTLS z, tokenSource = src\<rparr>
                     # grpcDialOptions (applyOptions opts))]\<rparr>)"
  using assms(2,3) by (simp add: New_connect [OF assms(1)] newConnection_dial)

lemma New_dial_ok:
  assumes "tokenSourceObtained ctx z opts (world s) src w1"
    and "transportCredentials (Domain z) (IsTLS z) w1 = ((t, None), w2)"
    and "DialContext ctx (Host z)
           (WithTransportCredentials t
              # WithPerRPCCredentials \<lparr>tls = IsTLS z, tokenSource = src\<rparr>
              # grpcDialOptions (applyOptions opts)) w2 = ((conn, None), w3)"
  shows "New transportCredentials DialContext NewServiceClient ctx z opts s =
           ((Some \<lparr>systemService = NewServiceClient system_pb conn,
                   adminService = NewServiceClient admin_pb conn,
                   managementService = NewServiceClient management_pb conn,
                   userService = NewServiceClient userV2Beta_pb conn,
                   userServiceV2 = NewServiceClient userV2_pb conn,
                   authService = NewServiceClient auth_pb conn,
                   settingsService = NewServiceClient settingsV2Beta_pb conn,
                   settingsServiceV2 = NewServiceClient settingsV2_pb conn,
                   sessionService = NewServiceClient sessionV2Beta_pb conn,
                   sessionServiceV2 = NewServiceClient sessionV2_pb conn,
                   organizationService = NewServiceClient orgV2Beta_pb conn,
                   organizationServiceV2 = NewServiceClient orgV2_pb conn,
                   oidcService = NewServiceClient oidcV2Beta_pb conn,
                   oidcServiceV2 = NewServiceClient oidcV2_pb conn\<rparr>, None),
            \<lparr>world = w3,
             calls = calls s @ initCalls ctx z opts @
               [TransportCredentialsCall (Domain z) (IsTLS z),
                DialContextCall ctx (Host z)
                  (WithTransportCredentials t
                     # WithPerRPCCredentials \<lparr>tls = IsTLS z, tokenSource = src\<rparr>
                     # grpcDialOptions (applyOptions opts))]\<rparr>)"
  using assms(2,3) by (simp add: New_connect [OF assms(1)] newConnection_dial)

lemma New_phases:
  fixes transportCredentials :: "string \<Rightarrow> bool \<Rightarrow> 'w \<Rightarrow> ('tc \<times> error option) \<times> 'w"
    and DialContext ::
      "'ctx \<Rightarrow> string \<Rightarrow> ('w, 'tc, 'o) DialOption list \<Rightarrow> 'w \<Rightarrow> ('conn option \<times> error option) \<times> 'w"
    and opts :: "('ctx, 'w, 'tc, 'o) Option list"
  obtains
    (init_error) initTS src e w1 where
      "initTokenSource (applyOptions opts) = Some initTS"
      "initTS ctx (Origin z) w = ((src, Some e), w1)"
  | (creds_error) src w1 t e w2 where
      "tokenSourceObtained ctx z opts w src w1"
      "transportCredentials (Domain z) (IsTLS z) w1 = ((t, Some e), w2)"
  | (dial_error) src w1 t w2 conn e w3 where
      "tokenSourceObtained ctx z opts w src w1"
      "transportCredentials (Domain z) (IsTLS z) w1 = ((t, None), w2)"
      "DialContext ctx (Host z)
         (WithTransportCredentials t
            # WithPerRPCCredentials \<lparr>tls = IsTLS z, tokenSource = src\<rparr>
            # grpcDialOptions (applyOptions opts)) w2 = ((conn, Some e), w3)"
  | (dial_ok) src w1 t w2 conn w3 where
      "tokenSourceObtained ctx z opts w src w1"
      "transportCredentials (Domain z) (IsTLS z) w1 = ((t, None), w2)"
      "DialContext ctx (Host z)
         (WithTransportCredentials t
            # WithPerRPCCredentials \<lparr>tls = IsTLS z, tokenSource = src\<rparr>
            # grpcDialOptions (applyOptions opts)) w2 = ((conn, None), w3)"
proof -
  have "(\<exists>initTS src e w1. initTokenSource (applyOptions opts) = Some initTS
            \<and> initTS ctx (Origin z) w = ((src, Some e), w1))
        \<or> (\<exists>src w1. tokenSourceObtained ctx z opts w src w1)"
  proof (cases "initTokenSource (applyOptions opts)")
    case None
    then show ?thesis by (simp add: tokenSourceObtained_def)
  next
    case (Some initTS)
    obtain src err w1 where r: "initTS ctx (Origin z) w = ((src, err), w1)"
      by (metis surj_pair)
    show ?thesis
    proof (cases err)
      case None
      with Some r show ?thesis by (auto simp: tokenSourceObtained_def)
    next
      case (Some e)
      with \<open>initTokenSource (applyOptions opts) = Some initTS\<close> r show ?thesis by auto
    qed
  qed
  then show thesis
  proof
    assume "\<exists>initTS src e w1. initTokenSource (applyOptions opts) = Some initTS
            \<and> initTS ctx (Origin z) w = ((src, Some e), w1)"
    then show thesis using init_error by blast
  next
    assume "\<exists>src w1. tokenSourceObtained ctx z opts w src w1"
    then obtain src w1 where P: "tokenSourceObtained ctx z opts w src w1" by blast
    obtain t terr w2 where T: "transportCredentials (Domain z) (IsTLS z) w1 = ((t, terr), w2)"
      by (metis surj_pair)
    show thesis
    proof (cases terr)
      case (Some e)
      with P T show thesis using creds_error by blast
    next
      case None
      obtain conn derr w3 where D: "DialContext ctx (Host z)
         (WithTransportCredentials t
            # WithPerRPCCredentials \<lparr>tls = IsTLS z, tokenSource = src\<rparr>
            # grpcDialOptions (applyOptions opts)) w2 = ((conn, derr), w3)"
        by (metis surj_pair)
      show thesis
      proof (cases derr)
        case None
        with P T D \<open>terr = None\<close> show thesis using dial_ok by blast
      next
        case (Some e)
        with P T D \<open>terr = None\<close> show thesis using dial_error by blast
      qed
    qed
  qed
qed

lemma New_calls_dial:
  fixes DialContext ::
      "'ctx \<Rightarrow> string \<Rightarrow> ('w, 'tc, 'o) DialOption list \<Rightarrow> 'w \<Rightarrow> ('conn option \<times> error option) \<times> 'w"
  assumes "tokenSourceObtained ctx z opts (world s) src w1"
    and "transportCredentials (Domain z) (IsTLS z) w1 = ((t, None), w2)"
  shows "calls (snd (New transportCredentials DialContext NewServiceClient ctx z opts s)) =
           calls s @ initCalls ctx z opts @
             [TransportCredentialsCall (Domain z) (IsTLS z),
              DialContextCall ctx (Host z)
                (WithTransportCredentials t
                   # WithPerRPCCredentials \<lparr>tls = IsTLS z, tokenSource = src\<rparr>
                   # grpcDialOptions (applyOptions opts))]"
proof -
  obtain conn derr w3 where D: "DialContext ctx (Host z)
         (WithTransportCredentials t
            # WithPerRPCCredentials \<lparr>tls = IsTLS z, tokenSource = src\<rparr>
            # grpcDialOptions (applyOptions opts)) w2 = ((conn, derr), w3)"
    by (metis surj_pair)
  show ?thesis
  proof (cases derr)
    case None
    with D show ?thesis
      by (simp add: New_dial_ok [where transportCredentials = transportCredentials
            and DialContext = DialContext, OF assms])
  next
    case (Some e)
    with D show ?thesis
      by (simp add: New_dial_error [where transportCredentials = transportCredentials
            and DialContext = DialContext, OF assms])
  qed
qed

lemma applyOptions_interleavings:
  assumes "opts \<in>
      {[WithGRPCDialOptions [A], WithGRPCDialOptions [B], WithAuth first, WithAuth second],
       [WithGRPCDialOptions [A], WithAuth first, WithGRPCDialOptions [B], WithAuth second],
       [WithGRPCDialOptions [A], WithAuth first, WithAuth second, WithGRPCDialOptions [B]],
       [WithAuth first, WithGRPCDialOptions [A], WithGRPCDialOptions [B], WithAuth second],
       [WithAuth first, WithGRPCDialOptions [A], WithAuth second, WithGRPCDialOptions [B]],
       [WithAuth first, WithAuth second, WithGRPCDialOptions [A], WithGRPCDialOptions [B]]}"
  shows "applyOptions opts = \<lparr>initTokenSource = second, grpcDialOptions = [A, B]\<rparr>"
  using assms by (auto simp: applyOptions_def WithAuth_def WithGRPCDialOptions_def)

lemma applyOptions_Nil:
  "applyOptions [] = \<lparr>initTokenSource = None, grpcDialOptions = []\<rparr>"
  by (simp add: applyOptions_def)

lemma New_success:
  fixes transportCredentials :: "string \<Rightarrow> bool \<Rightarrow> 'w \<Rightarrow> ('tc \<times> error option) \<times> 'w"
    and DialContext ::
      "'ctx \<Rightarrow> string \<Rightarrow> ('w, 'tc, 'o) DialOption list \<Rightarrow> 'w \<Rightarrow> ('conn option \<times> error option) \<times> 'w"
    and NewServiceClient :: "service \<Rightarrow> 'conn option \<Rightarrow> 'stub option"
  assumes "New transportCredentials DialContext NewServiceClient ctx z opts s = ((Some c, None), s')"
  obtains src w1 t w2 conn where
      "tokenSourceObtained ctx z opts (world s) src w1"
      "transportCredentials (Domain z) (IsTLS z) w1 = ((t, None), w2)"
      "DialContext ctx (Host z)
         (WithTransportCredentials t
            # WithPerRPCCredentials \<lparr>tls = IsTLS z, tokenSource = src\<rparr>
            # grpcDialOptions (applyOptions opts)) w2 = ((conn, None), world s')"
      "calls s' = calls s @ initCalls ctx z opts @
               [TransportCredentialsCall (Domain z) (IsTLS z),
                DialContextCall ctx (Host z)
                  (WithTransportCredentials t
                     # WithPerRPCCredentials \<lparr>tls = IsTLS z, tokenSource = src\<rparr>
                     # grpcDialOptions (applyOptions opts))]"
      "c = \<lparr>systemService = NewServiceClient system_pb conn,
                   adminService = NewServiceClient admin_pb conn,
                   managementService = NewServiceClient management_pb conn,
                   userService = NewServiceClient userV2Beta_pb conn,
                   userServiceV2 = NewServiceClient userV2_pb conn,
                   authService = NewServiceClient auth_pb conn,
                   settingsService = NewServiceClient settingsV2Beta_pb conn,
                   settingsServiceV2 = NewServiceClient settingsV2_pb conn,
                   sessionService = NewServiceClient sessionV2Beta_pb conn,
                   sessionServiceV2 = NewServiceClient sessionV2_pb conn,
                   organizationService = NewServiceClient orgV2Beta_pb conn,
                   organizationServiceV2 = NewServiceClient orgV2_pb conn,
                   oidcService = NewServiceClient oidcV2Beta_pb conn,
                   oidcServiceV2 = NewServiceClient oidcV2_pb conn\<rparr>"
proof (cases rule: New_phases [where transportCredentials = transportCredentials
        and DialContext = DialContext and opts = opts and ctx = ctx and z = z and w = "world s"])
  case (init_error initTS src e w1)
  then show ?thesis using assms by (simp add: New_init_error)
next
  case (creds_error src w1 t e w2)
  show ?thesis
    using assms
    by (simp add: New_creds_error [where transportCredentials = transportCredentials,
          OF creds_error])
next
  case (dial_error src w1 t w2 conn e w3)
  show ?thesis
    using assms
    by (simp add: New_dial_error [where transportCredentials = transportCredentials
          and DialContext = DialContext, OF dial_error])
next
  case (dial_ok src w1 t w2 conn w3)
  have N: "New transportCredentials DialContext NewServiceClient ctx z opts s =
           ((Some \<lparr>systemService = NewServiceClient system_pb conn,
                   adminService = NewServiceClient admin_pb conn,
                   managementService = NewServiceClient management_pb conn,
                   userService = NewServiceClient userV2Beta_pb conn,
                   userServiceV2 = NewServiceClient userV2_pb conn,
                   authService = NewServiceClient auth_pb conn,
                   settingsService = NewServiceClient settingsV2Beta_pb conn,
                   settingsServiceV2 = NewServiceClient settingsV2_pb conn,
                   sessionService = NewServiceClient sessionV2Beta_pb conn,
                   sessionServiceV2 = NewServiceClient sessionV2_pb conn,
                   organizationService = NewServiceClient orgV2Beta_pb conn,
                   organizationServiceV2 = NewServiceClient orgV2_pb conn,
                   oidcService = NewServiceClient oidcV2Beta_pb conn,
                   oidcServiceV2 = NewServiceClient oidcV2_pb conn\<rparr>, None),
            \<lparr>world = w3,
             calls = calls s @ initCalls ctx z opts @
               [TransportCredentialsCall (Domain z) (IsTLS z),
                DialContextCall ctx (Host z)
                  (WithTransportCredentials t
                     # WithPerRPCCredentials \<lparr>tls = IsTLS z, tokenSource = src\<rparr>
                     # grpcDialOptions (applyOptions opts))]\<rparr>)"
    by (rule New_dial_ok [where transportCredentials = transportCredentials
          and DialContext = DialContext, OF dial_ok])
  from N assms have w: "world s' = w3"
    and cs: "calls s' = calls s @ initCalls ctx z opts @
               [TransportCredentialsCall (Domain z) (IsTLS z),
                DialContextCall ctx (Host z)
                  (WithTransportCredentials t
                     # WithPerRPCCredentials \<lparr>tls = IsTLS z, tokenSource = src\<rparr>
                     # grpcDialOptions (applyOptions opts))]"
    by auto
  from N assms have "c = \<lparr>systemService = NewServiceClient system_pb conn,
                   adminService = NewServiceClient admin_pb conn,
                   managementService = NewServiceClient management_pb conn,
                   userService = NewServiceClient userV2Beta_pb conn,
                   userServiceV2 = NewServiceClient userV2_pb conn,
                   authService = NewServiceClient auth_pb conn,
                   settingsService = NewServiceClient settingsV2Beta_pb conn,
                   settingsServiceV2 = NewServiceClient settingsV2_pb conn,
                   sessionService = NewServiceClient sessionV2Beta_pb conn,
                   sessionServiceV2 = NewServiceClient sessionV2_pb conn,
                   organizationService = NewServiceClient orgV2Beta_pb conn,
                   organizationServiceV2 = NewServiceClient orgV2_pb conn,
                   oidcService = NewServiceClient oidcV2Beta_pb conn,
                   oidcServiceV2 = NewServiceClient oidcV2_pb conn\<rparr>"
    by simp
  with dial_ok w cs that show ?thesis by blast
qed

lemmas accessor_defs =
  SystemService_def AdminService_def ManagementService_def AuthService_def UserService_def
  UserServiceV2_def SettingsService_def SettingsServiceV2_def SessionService_def
  SessionServiceV2_def OIDCService_def OIDCServiceV2_def OrganizationService_def
  OrganizationServiceV2_def

lemma example_run:
  "\<exists>c s'. New exampleCredentials exampleDial exampleStub 0 exampleEndpoint []
            \<lparr>world = 0, calls = []\<rparr> = ((Some c, None), s')"
proof -
  let ?s = "\<lparr>world = 0, calls = []\<rparr> :: (nat, nat, bool, string) state"
  have P: "tokenSourceObtained 0 exampleEndpoint
      ([] :: (nat, nat, bool, string) Option list) (world ?s) None 0"
    by (simp add: tokenSourceObtained_def applyOptions_Nil)
  have T: "exampleCredentials (Domain exampleEndpoint) (IsTLS exampleEndpoint) 0 =
      ((True, None), 1)"
    by (simp add: exampleCredentials_def exampleEndpoint_def)
  have D: "exampleDial 0 (Host exampleEndpoint)
         (WithTransportCredentials True
            # WithPerRPCCredentials \<lparr>tls = IsTLS exampleEndpoint, tokenSource = None\<rparr>
            # grpcDialOptions (applyOptions ([] :: (nat, nat, bool, string) Option list))) 1 =
      ((Some 7, None), 2)"
    by (simp add: exampleDial_def)
  show ?thesis
    using New_dial_ok [where transportCredentials = exampleCredentials
        and DialContext = exampleDial and NewServiceClient = exampleStub, OF P T D]
    by blast
qed

lemma GetRequestMetadata_None:
  "GetRequestMetadata rctx \<lparr>tls = b, tokenSource = None\<rparr> w = ((Map.empty, None), w)"
  by (simp add: GetRequestMetadata_def)

lemma GetRequestMetadata_Some:
  "ts w = (Inr tok, w') \<Longrightarrow>
   GetRequestMetadata rctx \<lparr>tls = b, tokenSource = Some ts\<rparr> w =
     (([''authorization'' \<mapsto> ''Bearer '' @ tok], None), w')"
  by (simp add: GetRequestMetadata_def)

lemma applyOptions_WithAuth:
  "applyOptions [WithAuth initTS] = \<lparr>initTokenSource = initTS, grpcDialOptions = []\<rparr>"
  by (simp add: applyOptions_def WithAuth_def)

lemma example_auth_obtained:
  "tokenSourceObtained 0 z
     ([WithAuth (Some exampleInit)] :: (nat, nat, bool, string) Option list)
     (world \<lparr>world = 0, calls = []\<rparr>) (Some exampleTokens) 1"
  by (simp add: tokenSourceObtained_def applyOptions_WithAuth exampleInit_def)

lemma example_none_obtained:
  "tokenSourceObtained 0 z ([] :: (nat, nat, bool, string) Option list)
     (world \<lparr>world = 0, calls = []\<rparr>) None 0"
  by (simp add: tokenSourceObtained_def applyOptions_Nil)

lemma New_dial_result:
  fixes transportCredentials :: "string \<Rightarrow> bool \<Rightarrow> 'w \<Rightarrow> ('tc \<times> error option) \<times> 'w"
    and DialContext ::
      "'ctx \<Rightarrow> string \<Rightarrow> ('w, 'tc, 'o) DialOption list \<Rightarrow> 'w \<Rightarrow> ('conn option \<times> error option) \<times> 'w"
    and NewServiceClient :: "service \<Rightarrow> 'conn option \<Rightarrow> 'stub option"
  assumes "tokenSourceObtained ctx z opts (world s) src w1"
    and "transportCredentials (Domain z) (IsTLS z) w1 = ((t, None), w2)"
    and "DialContext ctx (Host z)
           (WithTransportCredentials t
              # WithPerRPCCredentials \<lparr>tls = IsTLS z, tokenSource = src\<rparr>
              # grpcDialOptions (applyOptions opts)) w2 = ((conn, derr), w3)"
  shows "New transportCredentials DialContext NewServiceClient ctx z opts s =
           ((if derr = None
             then Some \<lparr>systemService = NewServiceClient system_pb conn,
                   adminService = NewServiceClient admin_pb conn,
                   managementService = NewServiceClient management_pb conn,
                   userService = NewServiceClient userV2Beta_pb conn,
                   userServiceV2 = NewServiceClient userV2_pb conn,
                   authService = NewServiceClient auth_pb conn,
                   settingsService = NewServiceClient settingsV2Beta_pb conn,
                   settingsServiceV2 = NewServiceClient settingsV2_pb conn,
                   sessionService = NewServiceClient sessionV2Beta_pb conn,
                   sessionServiceV2 = NewServiceClient sessionV2_pb conn,
                   organizationService = NewServiceClient orgV2Beta_pb conn,
                   organizationServiceV2 = NewServiceClient orgV2_pb conn,
                   oidcService = NewServiceClient oidcV2Beta_pb conn,
                   oidcServiceV2 = NewServiceClient oidcV2_pb conn\<rparr>
             else None, derr),
            \<lparr>world = w3,
             calls = calls s @ initCalls ctx z opts @
               [TransportCredentialsCall (Domain z) (IsTLS z),
                DialContextCall ctx (Host z)
                  (WithTransportCredentials t
                     # WithPerRPCCredentials \<lparr>tls = IsTLS z, tokenSource = src\<rparr>
                     # grpcDialOptions (applyOptions opts))]\<rparr>)"
proof (cases derr)
  case None
  with assms(3) show ?thesis
    by (simp add: New_dial_ok [where transportCredentials = transportCredentials
          and DialContext = DialContext and NewServiceClient = NewServiceClient, OF assms(1,2)])
next
  case (Some e)
  with assms(3) show ?thesis
    by (simp add: New_dial_error [where transportCredentials = transportCredentials
          and DialContext = DialContext and NewServiceClient = NewServiceClient, OF assms(1,2)])
qed

section \<open>The claims\<close>

subsection \<open>Options\<close>

text \<open>
  Claim C10. Each option touches only its own field of the configuration: for every
  configuration, \<^verbatim>\<open>WithAuth\<close> leaves the accumulated dial options as they are,
  \<^verbatim>\<open>WithGRPCDialOptions\<close> leaves the token-source initializer as it is, and
  \<^verbatim>\<open>WithGRPCDialOptions\<close> with no argument leaves the whole configuration as it is.
\<close>

theorem options_touch_own_field:
  "grpcDialOptions (WithAuth initTS c) = grpcDialOptions c
   \<and> initTokenSource (WithGRPCDialOptions dialOpts c) = initTokenSource c
   \<and> WithGRPCDialOptions [] c = c"
  by (simp add: WithAuth_def WithGRPCDialOptions_def)

text \<open>
  Claim C1. Take the options \<^verbatim>\<open>WithGRPCDialOptions(A)\<close>, then
  \<^verbatim>\<open>WithGRPCDialOptions(B)\<close>, and \<^verbatim>\<open>WithAuth\<close> twice, in any of the six orders that
  keep \<open>A\<close> before \<open>B\<close> and the first \<^verbatim>\<open>WithAuth\<close> before the second. The
  configuration \<^verbatim>\<open>New\<close> works with holds the second initializer only and the dial
  options \<open>[A, B]\<close>. The token source is the one the second initializer returns (the
  first is never consulted), and what \<^verbatim>\<open>New\<close> returns is what \<^verbatim>\<open>DialContext\<close>
  returns when it is applied to exactly the transport credentials, the per-call
  credentials, \<open>A\<close> and \<open>B\<close>, in this order: its error, the world it leaves, and the
  handle over its connection.
\<close>

theorem New_options_accumulate:
  fixes transportCredentials :: "string \<Rightarrow> bool \<Rightarrow> 'w \<Rightarrow> ('tc \<times> error option) \<times> 'w"
    and DialContext ::
      "'ctx \<Rightarrow> string \<Rightarrow> ('w, 'tc, 'o) DialOption list \<Rightarrow> 'w \<Rightarrow> ('conn option \<times> error option) \<times> 'w"
    and NewServiceClient :: "service \<Rightarrow> 'conn option \<Rightarrow> 'stub option"
  assumes "opts \<in>
      {[WithGRPCDialOptions [A], WithGRPCDialOptions [B], WithAuth first, WithAuth second],
       [WithGRPCDialOptions [A], WithAuth first, WithGRPCDialOptions [B], WithAuth second],
       [WithGRPCDialOptions [A], WithAuth first, WithAuth second, WithGRPCDialOptions [B]],
       [WithAuth first, WithGRPCDialOptions [A], WithGRPCDialOptions [B], WithAuth second],
       [WithAuth first, WithGRPCDialOptions [A], WithAuth second, WithGRPCDialOptions [B]],
       [WithAuth first, WithAuth second, WithGRPCDialOptions [A], WithGRPCDialOptions [B]]}"
    and "case second of
           None \<Rightarrow> src = None \<and> w1 = world s
         | Some initTS \<Rightarrow> initTS ctx (Origin z) (world s) = ((src, None), w1)"
    and "transportCredentials (Domain z) (IsTLS z) w1 = ((t, None), w2)"
    and "DialContext ctx (Host z)
           [WithTransportCredentials t,
            WithPerRPCCredentials \<lparr>tls = IsTLS z, tokenSource = src\<rparr>, A, B] w2 =
         ((conn, derr), w3)"
  shows "applyOptions opts = \<lparr>initTokenSource = second, grpcDialOptions = [A, B]\<rparr>
         \<and> New transportCredentials DialContext NewServiceClient ctx z opts s =
           ((if derr = None
             then Some \<lparr>systemService = NewServiceClient system_pb conn,
                   adminService = NewServiceClient admin_pb conn,
                   managementService = NewServiceClient management_pb conn,
                   userService = NewServiceClient userV2Beta_pb conn,
                   userServiceV2 = NewServiceClient userV2_pb conn,
                   authService = NewServiceClient auth_pb conn,
                   settingsService = NewServiceClient settingsV2Beta_pb conn,
                   settingsServiceV2 = NewServiceClient settingsV2_pb conn,
                   sessionService = NewServiceClient sessionV2Beta_pb conn,
                   sessionServiceV2 = NewServiceClient sessionV2_pb conn,
                   organizationService = NewServiceClient orgV2Beta_pb conn,
                   organizationServiceV2 = NewServiceClient orgV2_pb conn,
                   oidcService = NewServiceClient oidcV2Beta_pb conn,
                   oidcServiceV2 = NewServiceClient oidcV2_pb conn\<rparr>
             else None, derr),
            \<lparr>world = w3,
             calls = calls s @
               (case second of None \<Rightarrow> [] | Some initTS \<Rightarrow> [InitTokenSourceCall ctx (Origin z)]) @
               [TransportCredentialsCall (Domain z) (IsTLS z),
                DialContextCall ctx (Host z)
                  [WithTransportCredentials t,
                   WithPerRPCCredentials \<lparr>tls = IsTLS z, tokenSource = src\<rparr>, A, B]]\<rparr>)"
proof -
  have cfg: "applyOptions opts = \<lparr>initTokenSource = second, grpcDialOptions = [A, B]\<rparr>"
    using assms(1) by (rule applyOptions_interleavings)
  have P: "tokenSourceObtained ctx z opts (world s) src w1"
    using assms(2) by (simp add: tokenSourceObtained_def cfg)
  have ic: "initCalls ctx z opts =
      (case second of None \<Rightarrow> [] | Some initTS \<Rightarrow> [InitTokenSourceCall ctx (Origin z)])"
    by (simp add: initCalls_def cfg)
  have D: "DialContext ctx (Host z)
           (WithTransportCredentials t
              # WithPerRPCCredentials \<lparr>tls = IsTLS z, tokenSource = src\<rparr>
              # grpcDialOptions (applyOptions opts)) w2 = ((conn, derr), w3)"
    using assms(4) by (simp add: cfg)
  have "New transportCredentials DialContext NewServiceClient ctx z opts s =
           ((if derr = None
             then Some \<lparr>systemService = NewServiceClient system_pb conn,
                   adminService = NewServiceClient admin_pb conn,
                   managementService = NewServiceClient management_pb conn,
                   userService = NewServiceClient userV2Beta_pb conn,
                   userServiceV2 = NewServiceClient userV2_pb conn,
                   authService = NewServiceClient auth_pb conn,
                   settingsService = NewServiceClient settingsV2Beta_pb conn,
                   settingsServiceV2 = NewServiceClient settingsV2_pb conn,
                   sessionService = NewServiceClient sessionV2Beta_pb conn,
                   sessionServiceV2 = NewServiceClient sessionV2_pb conn,
                   organizationService = NewServiceClient orgV2Beta_pb conn,
                   organizationServiceV2 = NewServiceClient orgV2_pb conn,
                   oidcService = NewServiceClient oidcV2Beta_pb conn,
                   oidcServiceV2 = NewServiceClient oidcV2_pb conn\<rparr>
             else None, derr),
            \<lparr>world = w3,
             calls = calls s @ initCalls ctx z opts @
               [TransportCredentialsCall (Domain z) (IsTLS z),
                DialContextCall ctx (Host z)
                  (WithTransportCredentials t
                     # WithPerRPCCredentials \<lparr>tls = IsTLS z, tokenSource = src\<rparr>
                     # grpcDialOptions (applyOptions opts))]\<rparr>)"
    by (rule New_dial_result [where transportCredentials = transportCredentials
          and DialContext = DialContext and NewServiceClient = NewServiceClient, OF P assms(3) D])
  then have "New transportCredentials DialContext NewServiceClient ctx z opts s =
           ((if derr = None
             then Some \<lparr>systemService = NewServiceClient system_pb conn,
                   adminService = NewServiceClient admin_pb conn,
                   managementService = NewServiceClient management_pb conn,
                   userService = NewServiceClient userV2Beta_pb conn,
                   userServiceV2 = NewServiceClient userV2_pb conn,
                   authService = NewServiceClient auth_pb conn,
                   settingsService = NewServiceClient settingsV2Beta_pb conn,
                   settingsServiceV2 = NewServiceClient settingsV2_pb conn,
                   sessionService = NewServiceClient sessionV2Beta_pb conn,
                   sessionServiceV2 = NewServiceClient sessionV2_pb conn,
                   organizationService = NewServiceClient orgV2Beta_pb conn,
                   organizationServiceV2 = NewServiceClient orgV2_pb conn,
                   oidcService = NewServiceClient oidcV2Beta_pb conn,
                   oidcServiceV2 = NewServiceClient oidcV2_pb conn\<rparr>
             else None, derr),
            \<lparr>world = w3,
             calls = calls s @
               (case second of None \<Rightarrow> [] | Some initTS \<Rightarrow> [InitTokenSourceCall ctx (Origin z)]) @
               [TransportCredentialsCall (Domain z) (IsTLS z),
                DialContextCall ctx (Host z)
                  [WithTransportCredentials t,
                   WithPerRPCCredentials \<lparr>tls = IsTLS z, tokenSource = src\<rparr>, A, B]]\<rparr>)"
    by (simp only: ic cfg clientOptions.simps)
  with cfg show ?thesis by (rule conjI)
qed

theorem New_options_accumulate_witness:
  "applyOptions [WithGRPCDialOptions [CallerDialOption ''A''], WithAuth (Some otherInit),
                WithGRPCDialOptions [CallerDialOption ''B''], WithAuth (Some exampleInit)] =
     (\<lparr>initTokenSource = Some exampleInit,
       grpcDialOptions = [CallerDialOption ''A'', CallerDialOption ''B'']\<rparr>
        :: (nat, nat, bool, string) clientOptions)
   \<and> New exampleCredentials exampleDial exampleStub 0 exampleEndpoint
         [WithGRPCDialOptions [CallerDialOption ''A''], WithAuth (Some otherInit),
                WithGRPCDialOptions [CallerDialOption ''B''], WithAuth (Some exampleInit)]
         \<lparr>world = 0, calls = []\<rparr> =
       ((Some \<lparr>systemService = exampleStub system_pb (Some 7),
                   adminService = exampleStub admin_pb (Some 7),
                   managementService = exampleStub management_pb (Some 7),
                   userService = exampleStub userV2Beta_pb (Some 7),
                   userServiceV2 = exampleStub userV2_pb (Some 7),
                   authService = exampleStub auth_pb (Some 7),
                   settingsService = exampleStub settingsV2Beta_pb (Some 7),
                   settingsServiceV2 = exampleStub settingsV2_pb (Some 7),
                   sessionService = exampleStub sessionV2Beta_pb (Some 7),
                   sessionServiceV2 = exampleStub sessionV2_pb (Some 7),
                   organizationService = exampleStub orgV2Beta_pb (Some 7),
                   organizationServiceV2 = exampleStub orgV2_pb (Some 7),
                   oidcService = exampleStub oidcV2Beta_pb (Some 7),
                   oidcServiceV2 = exampleStub oidcV2_pb (Some 7)\<rparr>, None),
        \<lparr>world = 3,
         calls = [InitTokenSourceCall 0 ''https://example.com:443'',
                  TransportCredentialsCall ''example.com'' True,
                  DialContextCall 0 ''example.com:443''
                    [WithTransportCredentials True,
                     WithPerRPCCredentials \<lparr>tls = True, tokenSource = Some exampleTokens\<rparr>,
                     CallerDialOption ''A'', CallerDialOption ''B'']]\<rparr>)"
proof -
  let ?opts = "[WithGRPCDialOptions [CallerDialOption ''A''], WithAuth (Some otherInit),
                WithGRPCDialOptions [CallerDialOption ''B''], WithAuth (Some exampleInit)]
                 :: (nat, nat, bool, string) Option list"
  let ?s = "\<lparr>world = 0, calls = []\<rparr> :: (nat, nat, bool, string) state"
  have h1: "?opts \<in>
      {[WithGRPCDialOptions [CallerDialOption ''A''], WithGRPCDialOptions [CallerDialOption ''B''],
        WithAuth (Some otherInit), WithAuth (Some exampleInit)],
       [WithGRPCDialOptions [CallerDialOption ''A''], WithAuth (Some otherInit),
        WithGRPCDialOptions [CallerDialOption ''B''], WithAuth (Some exampleInit)],
       [WithGRPCDialOptions [CallerDialOption ''A''], WithAuth (Some otherInit),
        WithAuth (Some exampleInit), WithGRPCDialOptions [CallerDialOption ''B'']],
       [WithAuth (Some otherInit), WithGRPCDialOptions [CallerDialOption ''A''],
        WithGRPCDialOptions [CallerDialOption ''B''], WithAuth (Some exampleInit)],
       [WithAuth (Some otherInit), WithGRPCDialOptions [CallerDialOption ''A''],
        WithAuth (Some exampleInit), WithGRPCDialOptions [CallerDialOption ''B'']],
       [WithAuth (Some otherInit), WithAuth (Some exampleInit),
        WithGRPCDialOptions [CallerDialOption ''A''], WithGRPCDialOptions [CallerDialOption ''B'']]}"
    by blast
  have h2: "case Some exampleInit of
           None \<Rightarrow> Some exampleTokens = None \<and> 1 = world ?s
         | Some initTS \<Rightarrow>
             initTS 0 (Origin exampleEndpoint) (world ?s) = ((Some exampleTokens, None), 1)"
    by (simp add: exampleInit_def)
  have h3: "exampleCredentials (Domain exampleEndpoint) (IsTLS exampleEndpoint) 1 = ((True, None), 2)"
    by (simp add: exampleCredentials_def exampleEndpoint_def)
  have h4: "exampleDial 0 (Host exampleEndpoint)
           [WithTransportCredentials True,
            WithPerRPCCredentials \<lparr>tls = IsTLS exampleEndpoint, tokenSource = Some exampleTokens\<rparr>,
            CallerDialOption ''A'', CallerDialOption ''B''] 2 =
         ((Some 7, None), 3)"
    by (simp add: exampleDial_def)
  have ep: "Domain exampleEndpoint = ''example.com''" "IsTLS exampleEndpoint = True"
    "Host exampleEndpoint = ''example.com:443''" "Origin exampleEndpoint = ''https://example.com:443''"
    by (simp_all add: exampleEndpoint_def)
  from New_options_accumulate [where transportCredentials = exampleCredentials
      and DialContext = exampleDial and NewServiceClient = exampleStub and first = "Some otherInit",
      OF h1 h2 h3 h4]
  show ?thesis
    by (simp only: ep state.simps append.simps option.simps if_True refl)
qed

subsection \<open>Failures of the construction\<close>

text \<open>
  Claim C2. When the configured token-source initializer returns an error, \<^verbatim>\<open>New\<close>
  returns no handle and that very error. The only call it has made is the call of the
  initializer: the log has grown by that one entry, with neither a call of
  \<^verbatim>\<open>transportCredentials\<close> nor one of \<^verbatim>\<open>DialContext\<close>, and the world is the one
  the initializer left.
\<close>

theorem New_initializer_error_fails_fast:
  assumes "initTokenSource (applyOptions opts) = Some initTS"
    and "initTS ctx (Origin z) (world s) = ((src, Some e), w1)"
  shows "New transportCredentials DialContext NewServiceClient ctx z opts s =
           ((None, Some e),
            \<lparr>world = w1, calls = calls s @ [InitTokenSourceCall ctx (Origin z)]\<rparr>)"
  using assms by (rule New_init_error)

theorem New_initializer_error_fails_fast_witness:
  "New exampleCredentials exampleDial exampleStub 0 exampleEndpoint
       [WithAuth (Some failingInit)] \<lparr>world = 0, calls = []\<rparr> =
     ((None, Some (Error ''invalid key file'')),
      \<lparr>world = 1, calls = [InitTokenSourceCall 0 ''https://example.com:443'']\<rparr>)"
proof -
  have h1: "initTokenSource (applyOptions [WithAuth (Some failingInit)]
      :: (nat, nat, bool, string) clientOptions) = Some failingInit"
    by (simp add: applyOptions_def WithAuth_def)
  have h2: "failingInit 0 (Origin exampleEndpoint) (world \<lparr>world = 0, calls = []\<rparr>) =
      ((Some exampleTokens, Some (Error ''invalid key file'')), 1)"
    by (simp add: failingInit_def)
  show ?thesis
    using New_initializer_error_fails_fast [OF h1 h2, of exampleCredentials exampleDial exampleStub]
    by (simp add: exampleEndpoint_def)
qed

text \<open>
  Claim C7. Whichever step of the construction fails (the token-source initializer, the
  making of the transport credentials, or the dial), \<^verbatim>\<open>New\<close> returns \<^verbatim>\<open>nil\<close> as the
  handle together with the error of that step, the very value and not a wrapper of it.
  And whenever \<^verbatim>\<open>New\<close> returns an error at all, the handle next to it is \<^verbatim>\<open>nil\<close>:
  there is no partial handle, also when the dial returns both a connection and an error.
\<close>

theorem New_failure_returns_error_alone:
  fixes transportCredentials :: "string \<Rightarrow> bool \<Rightarrow> 'w \<Rightarrow> ('tc \<times> error option) \<times> 'w"
    and DialContext ::
      "'ctx \<Rightarrow> string \<Rightarrow> ('w, 'tc, 'o) DialOption list \<Rightarrow> 'w \<Rightarrow> ('conn option \<times> error option) \<times> 'w"
    and NewServiceClient :: "service \<Rightarrow> 'conn option \<Rightarrow> 'stub option"
  shows
  "(\<forall>initTS src e w1.
      initTokenSource (applyOptions opts) = Some initTS \<longrightarrow>
      initTS ctx (Origin z) (world s) = ((src, Some e), w1) \<longrightarrow>
      fst (New transportCredentials DialContext NewServiceClient ctx z opts s) = (None, Some e))
   \<and> (\<forall>src w1 t e w2.
      tokenSourceObtained ctx z opts (world s) src w1 \<longrightarrow>
      transportCredentials (Domain z) (IsTLS z) w1 = ((t, Some e), w2) \<longrightarrow>
      fst (New transportCredentials DialContext NewServiceClient ctx z opts s) = (None, Some e))
   \<and> (\<forall>src w1 t w2 conn e w3.
      tokenSourceObtained ctx z opts (world s) src w1 \<longrightarrow>
      transportCredentials (Domain z) (IsTLS z) w1 = ((t, None), w2) \<longrightarrow>
      DialContext ctx (Host z)
         (WithTransportCredentials t
            # WithPerRPCCredentials \<lparr>tls = IsTLS z, tokenSource = src\<rparr>
            # grpcDialOptions (applyOptions opts)) w2 = ((conn, Some e), w3) \<longrightarrow>
      fst (New transportCredentials DialContext NewServiceClient ctx z opts s) = (None, Some e))
   \<and> (\<forall>h e.
      fst (New transportCredentials DialContext NewServiceClient ctx z opts s) = (h, Some e) \<longrightarrow>
      h = None)"
proof (intro conjI allI impI)
  fix initTS src e w1
  assume "initTokenSource (applyOptions opts) = Some initTS"
    and "initTS ctx (Origin z) (world s) = ((src, Some e), w1)"
  then show "fst (New transportCredentials DialContext NewServiceClient ctx z opts s) = (None, Some e)"
    by (simp add: New_init_error)
next
  fix src w1 t e w2
  assume P: "tokenSourceObtained ctx z opts (world s) src w1"
    and T: "transportCredentials (Domain z) (IsTLS z) w1 = ((t, Some e), w2)"
  show "fst (New transportCredentials DialContext NewServiceClient ctx z opts s) = (None, Some e)"
    by (simp add: New_creds_error [where transportCredentials = transportCredentials, OF P T])
next
  fix src w1 t w2 conn e w3
  assume P: "tokenSourceObtained ctx z opts (world s) src w1"
    and T: "transportCredentials (Domain z) (IsTLS z) w1 = ((t, None), w2)"
    and D: "DialContext ctx (Host z)
         (WithTransportCredentials t
            # WithPerRPCCredentials \<lparr>tls = IsTLS z, tokenSource = src\<rparr>
            # grpcDialOptions (applyOptions opts)) w2 = ((conn, Some e), w3)"
  show "fst (New transportCredentials DialContext NewServiceClient ctx z opts s) = (None, Some e)"
    by (simp add: New_dial_error [where transportCredentials = transportCredentials
          and DialContext = DialContext, OF P T D])
next
  fix h e
  assume R: "fst (New transportCredentials DialContext NewServiceClient ctx z opts s) = (h, Some e)"
  show "h = None"
  proof (cases rule: New_phases [where transportCredentials = transportCredentials
        and DialContext = DialContext and opts = opts and ctx = ctx and z = z and w = "world s"])
    case (init_error initTS src e' w1)
    then show ?thesis using R by (simp add: New_init_error)
  next
    case (creds_error src w1 t e' w2)
    show ?thesis
      using R
      by (simp add: New_creds_error [where transportCredentials = transportCredentials,
            OF creds_error])
  next
    case (dial_error src w1 t w2 conn e' w3)
    show ?thesis
      using R
      by (simp add: New_dial_error [where transportCredentials = transportCredentials
            and DialContext = DialContext, OF dial_error])
  next
    case (dial_ok src w1 t w2 conn w3)
    show ?thesis
      using R
      by (simp add: New_dial_ok [where transportCredentials = transportCredentials
            and DialContext = DialContext, OF dial_ok])
  qed
qed

theorem New_failure_returns_error_alone_witness:
  "fst (New exampleCredentials exampleDial exampleStub 0 exampleEndpoint
          [WithAuth (Some failingInit)] \<lparr>world = 0, calls = []\<rparr>) =
     (None, Some (Error ''invalid key file''))
   \<and> fst (New failingCredentials exampleDial exampleStub 0 exampleEndpoint []
          \<lparr>world = 0, calls = []\<rparr>) =
     (None, Some (Error ''no system cert pool''))
   \<and> fst (New exampleCredentials failingDial exampleStub 0 exampleEndpoint []
          \<lparr>world = 0, calls = []\<rparr>) =
     (None, Some (Error ''connection refused''))"
proof -
  let ?s = "\<lparr>world = 0, calls = []\<rparr> :: (nat, nat, bool, string) state"
  have a1: "initTokenSource (applyOptions [WithAuth (Some failingInit)]
      :: (nat, nat, bool, string) clientOptions) = Some failingInit"
    by (simp add: applyOptions_def WithAuth_def)
  have a2: "failingInit 0 (Origin exampleEndpoint) (world ?s) =
      ((Some exampleTokens, Some (Error ''invalid key file'')), 1)"
    by (simp add: failingInit_def)
  have b1: "tokenSourceObtained 0 exampleEndpoint
      ([] :: (nat, nat, bool, string) Option list) (world ?s) None 0"
    by (simp add: tokenSourceObtained_def applyOptions_Nil)
  have b2: "failingCredentials (Domain exampleEndpoint) (IsTLS exampleEndpoint) 0 =
      ((False, Some (Error ''no system cert pool'')), 1)"
    by (simp add: failingCredentials_def)
  have c2: "exampleCredentials (Domain exampleEndpoint) (IsTLS exampleEndpoint) 0 =
      ((True, None), 1)"
    by (simp add: exampleCredentials_def exampleEndpoint_def)
  have c3: "failingDial 0 (Host exampleEndpoint)
         (WithTransportCredentials True
            # WithPerRPCCredentials \<lparr>tls = IsTLS exampleEndpoint, tokenSource = None\<rparr>
            # grpcDialOptions (applyOptions ([] :: (nat, nat, bool, string) Option list))) 1 =
      ((Some 7, Some (Error ''connection refused'')), 2)"
    by (simp add: failingDial_def)
  have A: "fst (New exampleCredentials exampleDial exampleStub 0 exampleEndpoint
          [WithAuth (Some failingInit)] ?s) = (None, Some (Error ''invalid key file''))"
    using New_failure_returns_error_alone [where transportCredentials = exampleCredentials
        and DialContext = exampleDial and NewServiceClient = exampleStub and ctx = 0
        and z = exampleEndpoint and opts = "[WithAuth (Some failingInit)]" and s = ?s] a1 a2
    by blast
  have B: "fst (New failingCredentials exampleDial exampleStub 0 exampleEndpoint [] ?s) =
      (None, Some (Error ''no system cert pool''))"
    using New_failure_returns_error_alone [where transportCredentials = failingCredentials
        and DialContext = exampleDial and NewServiceClient = exampleStub and ctx = 0
        and z = exampleEndpoint and opts = "[]" and s = ?s] b1 b2
    by blast
  have C: "fst (New exampleCredentials failingDial exampleStub 0 exampleEndpoint [] ?s) =
      (None, Some (Error ''connection refused''))"
    using New_failure_returns_error_alone [where transportCredentials = exampleCredentials
        and DialContext = failingDial and NewServiceClient = exampleStub and ctx = 0
        and z = exampleEndpoint and opts = "[]" and s = ?s] b1 c2 c3
    by blast
  from A B C show ?thesis by simp
qed

subsection \<open>The call of the initializer\<close>

text \<open>
  Claim C8. When a token-source initializer is configured, \<^verbatim>\<open>New\<close> calls it exactly
  once, with the context \<^verbatim>\<open>New\<close> was given and with the origin of the endpoint.
  Name what the initializer returns on these two arguments in the world \<^verbatim>\<open>New\<close>
  starts in, and what the two later collaborators return in the worlds that follow:
  then the result of \<^verbatim>\<open>New\<close> is the initializer's error and the world it left, or
  else the outcome of the connection made with the token source it returned, from the
  world it left. The log grows by one call of the initializer with these arguments, and
  by no second one.
\<close>

theorem New_calls_initializer_once:
  fixes transportCredentials :: "string \<Rightarrow> bool \<Rightarrow> 'w \<Rightarrow> ('tc \<times> error option) \<times> 'w"
    and DialContext ::
      "'ctx \<Rightarrow> string \<Rightarrow> ('w, 'tc, 'o) DialOption list \<Rightarrow> 'w \<Rightarrow> ('conn option \<times> error option) \<times> 'w"
    and NewServiceClient :: "service \<Rightarrow> 'conn option \<Rightarrow> 'stub option"
  assumes "initTokenSource (applyOptions opts) = Some initTS"
    and "initTS ctx (Origin z) (world s) = ((src, ierr), w1)"
    and "transportCredentials (Domain z) (IsTLS z) w1 = ((t, terr), w2)"
    and "DialContext ctx (Host z)
           (WithTransportCredentials t
              # WithPerRPCCredentials \<lparr>tls = IsTLS z, tokenSource = src\<rparr>
              # grpcDialOptions (applyOptions opts)) w2 = ((conn, derr), w3)"
  shows "New transportCredentials DialContext NewServiceClient ctx z opts s =
          (case ierr of
             Some e \<Rightarrow>
               ((None, Some e),
                \<lparr>world = w1, calls = calls s @ [InitTokenSourceCall ctx (Origin z)]\<rparr>)
           | None \<Rightarrow>
              (case terr of
                 Some e \<Rightarrow>
                   ((None, Some e),
                    \<lparr>world = w2,
                     calls = calls s @
                       [InitTokenSourceCall ctx (Origin z),
                        TransportCredentialsCall (Domain z) (IsTLS z)]\<rparr>)
               | None \<Rightarrow>
                   ((if derr = None
                     then Some \<lparr>systemService = NewServiceClient system_pb conn,
                   adminService = NewServiceClient admin_pb conn,
                   managementService = NewServiceClient management_pb conn,
                   userService = NewServiceClient userV2Beta_pb conn,
                   userServiceV2 = NewServiceClient userV2_pb conn,
                   authService = NewServiceClient auth_pb conn,
                   settingsService = NewServiceClient settingsV2Beta_pb conn,
                   settingsServiceV2 = NewServiceClient settingsV2_pb conn,
                   sessionService = NewServiceClient sessionV2Beta_pb conn,
                   sessionServiceV2 = NewServiceClient sessionV2_pb conn,
                   organizationService = NewServiceClient orgV2Beta_pb conn,
                   organizationServiceV2 = NewServiceClient orgV2_pb conn,
                   oidcService = NewServiceClient oidcV2Beta_pb conn,
                   oidcServiceV2 = NewServiceClient oidcV2_pb conn\<rparr>
                     else None, derr),
                    \<lparr>world = w3,
                     calls = calls s @
                       [InitTokenSourceCall ctx (Origin z),
                        TransportCredentialsCall (Domain z) (IsTLS z),
                        DialContextCall ctx (Host z)
                          (WithTransportCredentials t
                             # WithPerRPCCredentials \<lparr>tls = IsTLS z, tokenSource = src\<rparr>
                             # grpcDialOptions (applyOptions opts))]\<rparr>)))
       \<and> (\<exists>rest.
            calls (snd (New transportCredentials DialContext NewServiceClient ctx z opts s)) =
              calls s @ InitTokenSourceCall ctx (Origin z) # rest
            \<and> (\<forall>ctx' origin'. InitTokenSourceCall ctx' origin' \<notin> set rest))"
proof -
  have ic: "initCalls ctx z opts = [InitTokenSourceCall ctx (Origin z)]"
    using assms(1) by (simp add: initCalls_def)
  show ?thesis
  proof (cases ierr)
    case (Some e)
    with assms(2) have "initTS ctx (Origin z) (world s) = ((src, Some e), w1)" by simp
    from New_init_error [where transportCredentials = transportCredentials
        and DialContext = DialContext and NewServiceClient = NewServiceClient,
        OF assms(1) this] Some
    show ?thesis by simp
  next
    case None
    with assms(1,2) have P: "tokenSourceObtained ctx z opts (world s) src w1"
      by (simp add: tokenSourceObtained_def)
    show ?thesis
    proof (cases terr)
      case (Some e)
      with assms(3) have T: "transportCredentials (Domain z) (IsTLS z) w1 = ((t, Some e), w2)"
        by simp
      from New_creds_error [where transportCredentials = transportCredentials
          and DialContext = DialContext and NewServiceClient = NewServiceClient, OF P T]
        \<open>ierr = None\<close> Some ic
      show ?thesis by simp
    next
      case tn: None
      with assms(3) have T: "transportCredentials (Domain z) (IsTLS z) w1 = ((t, None), w2)"
        by simp
      from New_dial_result [where transportCredentials = transportCredentials
          and DialContext = DialContext and NewServiceClient = NewServiceClient, OF P T assms(4)]
        \<open>ierr = None\<close> tn ic
      show ?thesis by simp
    qed
  qed
qed

theorem New_calls_initializer_once_witness:
  "New exampleCredentials exampleDial exampleStub 5 exampleEndpoint
       [WithAuth (Some issuerCheckingInit)] \<lparr>world = 0, calls = []\<rparr> =
     ((Some \<lparr>systemService = exampleStub system_pb (Some 7),
                   adminService = exampleStub admin_pb (Some 7),
                   managementService = exampleStub management_pb (Some 7),
                   userService = exampleStub userV2Beta_pb (Some 7),
                   userServiceV2 = exampleStub userV2_pb (Some 7),
                   authService = exampleStub auth_pb (Some 7),
                   settingsService = exampleStub settingsV2Beta_pb (Some 7),
                   settingsServiceV2 = exampleStub settingsV2_pb (Some 7),
                   sessionService = exampleStub sessionV2Beta_pb (Some 7),
                   sessionServiceV2 = exampleStub sessionV2_pb (Some 7),
                   organizationService = exampleStub orgV2Beta_pb (Some 7),
                   organizationServiceV2 = exampleStub orgV2_pb (Some 7),
                   oidcService = exampleStub oidcV2Beta_pb (Some 7),
                   oidcServiceV2 = exampleStub oidcV2_pb (Some 7)\<rparr>, None),
      \<lparr>world = 3,
       calls = [InitTokenSourceCall 5 ''https://example.com:443'',
                TransportCredentialsCall ''example.com'' True,
                DialContextCall 5 ''example.com:443''
                  [WithTransportCredentials True,
                   WithPerRPCCredentials \<lparr>tls = True, tokenSource = Some exampleTokens\<rparr>]]\<rparr>)"
proof -
  let ?s = "\<lparr>world = 0, calls = []\<rparr> :: (nat, nat, bool, string) state"
  have ao: "applyOptions [WithAuth (Some issuerCheckingInit)] =
      (\<lparr>initTokenSource = Some issuerCheckingInit, grpcDialOptions = []\<rparr>
        :: (nat, nat, bool, string) clientOptions)"
    by (rule applyOptions_WithAuth)
  have h1: "initTokenSource (applyOptions [WithAuth (Some issuerCheckingInit)]
      :: (nat, nat, bool, string) clientOptions) = Some issuerCheckingInit"
    by (simp add: ao)
  have h2: "issuerCheckingInit 5 (Origin exampleEndpoint) (world ?s) =
      ((Some exampleTokens, None), 1)"
    by (simp add: issuerCheckingInit_def exampleEndpoint_def)
  have h3: "exampleCredentials (Domain exampleEndpoint) (IsTLS exampleEndpoint) 1 = ((True, None), 2)"
    by (simp add: exampleCredentials_def exampleEndpoint_def)
  have h4: "exampleDial 5 (Host exampleEndpoint)
           (WithTransportCredentials True
              # WithPerRPCCredentials \<lparr>tls = IsTLS exampleEndpoint, tokenSource = Some exampleTokens\<rparr>
              # grpcDialOptions (applyOptions
                  ([WithAuth (Some issuerCheckingInit)] :: (nat, nat, bool, string) Option list))) 2 =
         ((Some 7, None), 3)"
    by (simp add: exampleDial_def)
  have ep: "Domain exampleEndpoint = ''example.com''" "IsTLS exampleEndpoint = True"
    "Host exampleEndpoint = ''example.com:443''" "Origin exampleEndpoint = ''https://example.com:443''"
    by (simp_all add: exampleEndpoint_def)
  from New_calls_initializer_once [where transportCredentials = exampleCredentials
      and DialContext = exampleDial and NewServiceClient = exampleStub, OF h1 h2 h3 h4,
      THEN conjunct1]
  show ?thesis
    by (simp only: ep ao clientOptions.simps state.simps append.simps option.simps if_True refl)
qed

subsection \<open>The handle\<close>

text \<open>
  Claim C6. When \<^verbatim>\<open>New\<close> succeeds, it has dialled exactly once, with exactly one
  credential provider of its own making among the dial options, and every accessor of
  the handle returns the stub that the constructor of its package made from the one
  connection this dial returned. With stub constructors that never return \<^verbatim>\<open>nil\<close>,
  as the generated ones are, no accessor returns \<^verbatim>\<open>nil\<close>.
\<close>

theorem New_stubs_share_connection:
  fixes transportCredentials :: "string \<Rightarrow> bool \<Rightarrow> 'w \<Rightarrow> ('tc \<times> error option) \<times> 'w"
    and DialContext ::
      "'ctx \<Rightarrow> string \<Rightarrow> ('w, 'tc, 'o) DialOption list \<Rightarrow> 'w \<Rightarrow> ('conn option \<times> error option) \<times> 'w"
    and NewServiceClient :: "service \<Rightarrow> 'conn option \<Rightarrow> 'stub option"
  assumes "New transportCredentials DialContext NewServiceClient ctx z opts s = ((Some c, None), s')"
  shows "\<exists>src w1 t w2 conn.
      tokenSourceObtained ctx z opts (world s) src w1
      \<and> transportCredentials (Domain z) (IsTLS z) w1 = ((t, None), w2)
      \<and> DialContext ctx (Host z)
           (WithTransportCredentials t
              # WithPerRPCCredentials \<lparr>tls = IsTLS z, tokenSource = src\<rparr>
              # grpcDialOptions (applyOptions opts)) w2 = ((conn, None), world s')
      \<and> calls s' = calls s @ initCalls ctx z opts @
            [TransportCredentialsCall (Domain z) (IsTLS z),
             DialContextCall ctx (Host z)
               (WithTransportCredentials t
                  # WithPerRPCCredentials \<lparr>tls = IsTLS z, tokenSource = src\<rparr>
                  # grpcDialOptions (applyOptions opts))]
      \<and> fst (SystemService c) = NewServiceClient system_pb conn
      \<and> fst (AdminService c) = NewServiceClient admin_pb conn
      \<and> fst (ManagementService c) = NewServiceClient management_pb conn
      \<and> fst (AuthService c) = NewServiceClient auth_pb conn
      \<and> fst (UserService c) = NewServiceClient userV2Beta_pb conn
      \<and> fst (UserServiceV2 c) = NewServiceClient userV2_pb conn
      \<and> fst (SettingsService c) = NewServiceClient settingsV2Beta_pb conn
      \<and> fst (SettingsServiceV2 c) = NewServiceClient settingsV2_pb conn
      \<and> fst (SessionService c) = NewServiceClient sessionV2Beta_pb conn
      \<and> fst (SessionServiceV2 c) = NewServiceClient sessionV2_pb conn
      \<and> fst (OIDCService c) = NewServiceClient oidcV2Beta_pb conn
      \<and> fst (OIDCServiceV2 c) = NewServiceClient oidcV2_pb conn
      \<and> fst (OrganizationService c) = NewServiceClient orgV2Beta_pb conn
      \<and> fst (OrganizationServiceV2 c) = NewServiceClient orgV2_pb conn
      \<and> ((\<forall>pkg. NewServiceClient pkg conn \<noteq> None) \<longrightarrow>
           list_all (\<lambda>acc. fst (acc c) \<noteq> None) accessors)"
proof -
  from assms obtain src w1 t w2 conn where
      P: "tokenSourceObtained ctx z opts (world s) src w1"
      and T: "transportCredentials (Domain z) (IsTLS z) w1 = ((t, None), w2)"
      and D: "DialContext ctx (Host z)
         (WithTransportCredentials t
            # WithPerRPCCredentials \<lparr>tls = IsTLS z, tokenSource = src\<rparr>
            # grpcDialOptions (applyOptions opts)) w2 = ((conn, None), world s')"
      and L: "calls s' = calls s @ initCalls ctx z opts @
               [TransportCredentialsCall (Domain z) (IsTLS z),
                DialContextCall ctx (Host z)
                  (WithTransportCredentials t
                     # WithPerRPCCredentials \<lparr>tls = IsTLS z, tokenSource = src\<rparr>
                     # grpcDialOptions (applyOptions opts))]"
      and C: "c = \<lparr>systemService = NewServiceClient system_pb conn,
                   adminService = NewServiceClient admin_pb conn,
                   managementService = NewServiceClient management_pb conn,
                   userService = NewServiceClient userV2Beta_pb conn,
                   userServiceV2 = NewServiceClient userV2_pb conn,
                   authService = NewServiceClient auth_pb conn,
                   settingsService = NewServiceClient settingsV2Beta_pb conn,
                   settingsServiceV2 = NewServiceClient settingsV2_pb conn,
                   sessionService = NewServiceClient sessionV2Beta_pb conn,
                   sessionServiceV2 = NewServiceClient sessionV2_pb conn,
                   organizationService = NewServiceClient orgV2Beta_pb conn,
                   organizationServiceV2 = NewServiceClient orgV2_pb conn,
                   oidcService = NewServiceClient oidcV2Beta_pb conn,
                   oidcServiceV2 = NewServiceClient oidcV2_pb conn\<rparr>"
    by (rule New_success)
  have A: "fst (SystemService c) = NewServiceClient system_pb conn
      \<and> fst (AdminService c) = NewServiceClient admin_pb conn
      \<and> fst (ManagementService c) = NewServiceClient management_pb conn
      \<and> fst (AuthService c) = NewServiceClient auth_pb conn
      \<and> fst (UserService c) = NewServiceClient userV2Beta_pb conn
      \<and> fst (UserServiceV2 c) = NewServiceClient userV2_pb conn
      \<and> fst (SettingsService c) = NewServiceClient settingsV2Beta_pb conn
      \<and> fst (SettingsServiceV2 c) = NewServiceClient settingsV2_pb conn
      \<and> fst (SessionService c) = NewServiceClient sessionV2Beta_pb conn
      \<and> fst (SessionServiceV2 c) = NewServiceClient sessionV2_pb conn
      \<and> fst (OIDCService c) = NewServiceClient oidcV2Beta_pb conn
      \<and> fst (OIDCServiceV2 c) = NewServiceClient oidcV2_pb conn
      \<and> fst (OrganizationService c) = NewServiceClient orgV2Beta_pb conn
      \<and> fst (OrganizationServiceV2 c) = NewServiceClient orgV2_pb conn"
    by (simp add: C accessor_defs)
  have B: "(\<forall>pkg. NewServiceClient pkg conn \<noteq> None) \<longrightarrow>
           list_all (\<lambda>acc. fst (acc c) \<noteq> None) accessors"
    by (simp add: C accessors_def accessor_defs)
  from P T D L A B show ?thesis by blast
qed

theorem New_stubs_share_connection_witness:
  "\<exists>c s'. New exampleCredentials exampleDial exampleStub 0 exampleEndpoint []
            \<lparr>world = 0, calls = []\<rparr> = ((Some c, None), s')
     \<and> fst (SystemService c) = Some (system_pb, Some 7)
     \<and> fst (UserService c) = Some (userV2Beta_pb, Some 7)
     \<and> fst (UserServiceV2 c) = Some (userV2_pb, Some 7)
     \<and> fst (OrganizationServiceV2 c) = Some (orgV2_pb, Some 7)
     \<and> list_all (\<lambda>acc. fst (acc c) \<noteq> None) accessors
     \<and> calls s' =
          [TransportCredentialsCall ''example.com'' True,
           DialContextCall 0 ''example.com:443''
             [WithTransportCredentials True,
              WithPerRPCCredentials \<lparr>tls = True, tokenSource = None\<rparr>]]"
proof -
  from example_run obtain c s' where
    run: "New exampleCredentials exampleDial exampleStub 0 exampleEndpoint []
            \<lparr>world = 0, calls = []\<rparr> = ((Some c, None), s')"
    by blast
  have nn: "\<And>conn. \<forall>pkg. exampleStub pkg conn \<noteq> None"
    by (simp add: exampleStub_def)
  from New_stubs_share_connection [OF run] nn
  have "fst (SystemService c) = Some (system_pb, Some 7)
     \<and> fst (UserService c) = Some (userV2Beta_pb, Some 7)
     \<and> fst (UserServiceV2 c) = Some (userV2_pb, Some 7)
     \<and> fst (OrganizationServiceV2 c) = Some (orgV2_pb, Some 7)
     \<and> list_all (\<lambda>acc. fst (acc c) \<noteq> None) accessors
     \<and> calls s' =
          [TransportCredentialsCall ''example.com'' True,
           DialContextCall 0 ''example.com:443''
             [WithTransportCredentials True,
              WithPerRPCCredentials \<lparr>tls = True, tokenSource = None\<rparr>]]"
    by (auto simp: exampleDial_def exampleStub_def exampleCredentials_def exampleEndpoint_def
        initCalls_def tokenSourceObtained_def applyOptions_Nil)
  with run show ?thesis by blast
qed

text \<open>
  Claim C9. On a handle that \<^verbatim>\<open>New\<close> has built, each of the fourteen accessors
  returns the stub stored at construction and leaves the handle as it was, so that a
  second call returns the same again. An accessor takes the receiver only, and its
  result has no error component.
\<close>

theorem accessors_return_stored_stub:
  fixes transportCredentials :: "string \<Rightarrow> bool \<Rightarrow> 'w \<Rightarrow> ('tc \<times> error option) \<times> 'w"
    and DialContext ::
      "'ctx \<Rightarrow> string \<Rightarrow> ('w, 'tc, 'o) DialOption list \<Rightarrow> 'w \<Rightarrow> ('conn option \<times> error option) \<times> 'w"
    and NewServiceClient :: "service \<Rightarrow> 'conn option \<Rightarrow> 'stub option"
  assumes "New transportCredentials DialContext NewServiceClient ctx z opts s = ((Some c, None), s')"
  shows "length (accessors :: ('stub Client \<Rightarrow> 'stub option \<times> 'stub Client) list) = 14
      \<and> list_all (\<lambda>acc. snd (acc c) = c \<and> acc (snd (acc c)) = acc c) accessors
      \<and> (\<exists>conn.
          SystemService c = (NewServiceClient system_pb conn, c)
        \<and> AdminService c = (NewServiceClient admin_pb conn, c)
        \<and> ManagementService c = (NewServiceClient management_pb conn, c)
        \<and> AuthService c = (NewServiceClient auth_pb conn, c)
        \<and> UserService c = (NewServiceClient userV2Beta_pb conn, c)
        \<and> UserServiceV2 c = (NewServiceClient userV2_pb conn, c)
        \<and> SettingsService c = (NewServiceClient settingsV2Beta_pb conn, c)
        \<and> SettingsServiceV2 c = (NewServiceClient settingsV2_pb conn, c)
        \<and> SessionService c = (NewServiceClient sessionV2Beta_pb conn, c)
        \<and> SessionServiceV2 c = (NewServiceClient sessionV2_pb conn, c)
        \<and> OIDCService c = (NewServiceClient oidcV2Beta_pb conn, c)
        \<and> OIDCServiceV2 c = (NewServiceClient oidcV2_pb conn, c)
        \<and> OrganizationService c = (NewServiceClient orgV2Beta_pb conn, c)
        \<and> OrganizationServiceV2 c = (NewServiceClient orgV2_pb conn, c))"
proof -
  from assms obtain conn where
      C: "c = \<lparr>systemService = NewServiceClient system_pb conn,
                   adminService = NewServiceClient admin_pb conn,
                   managementService = NewServiceClient management_pb conn,
                   userService = NewServiceClient userV2Beta_pb conn,
                   userServiceV2 = NewServiceClient userV2_pb conn,
                   authService = NewServiceClient auth_pb conn,
                   settingsService = NewServiceClient settingsV2Beta_pb conn,
                   settingsServiceV2 = NewServiceClient settingsV2_pb conn,
                   sessionService = NewServiceClient sessionV2Beta_pb conn,
                   sessionServiceV2 = NewServiceClient sessionV2_pb conn,
                   organizationService = NewServiceClient orgV2Beta_pb conn,
                   organizationServiceV2 = NewServiceClient orgV2_pb conn,
                   oidcService = NewServiceClient oidcV2Beta_pb conn,
                   oidcServiceV2 = NewServiceClient oidcV2_pb conn\<rparr>"
    by (rule New_success)
  have 1: "length (accessors :: ('stub Client \<Rightarrow> 'stub option \<times> 'stub Client) list) = 14"
    by (simp add: accessors_def)
  have 2: "list_all (\<lambda>acc. snd (acc c) = c \<and> acc (snd (acc c)) = acc c) accessors"
    by (simp add: accessors_def accessor_defs)
  have 3: "SystemService c = (NewServiceClient system_pb conn, c)
        \<and> AdminService c = (NewServiceClient admin_pb conn, c)
        \<and> ManagementService c = (NewServiceClient management_pb conn, c)
        \<and> AuthService c = (NewServiceClient auth_pb conn, c)
        \<and> UserService c = (NewServiceClient userV2Beta_pb conn, c)
        \<and> UserServiceV2 c = (NewServiceClient userV2_pb conn, c)
        \<and> SettingsService c = (NewServiceClient settingsV2Beta_pb conn, c)
        \<and> SettingsServiceV2 c = (NewServiceClient settingsV2_pb conn, c)
        \<and> SessionService c = (NewServiceClient sessionV2Beta_pb conn, c)
        \<and> SessionServiceV2 c = (NewServiceClient sessionV2_pb conn, c)
        \<and> OIDCService c = (NewServiceClient oidcV2Beta_pb conn, c)
        \<and> OIDCServiceV2 c = (NewServiceClient oidcV2_pb conn, c)
        \<and> OrganizationService c = (NewServiceClient orgV2Beta_pb conn, c)
        \<and> OrganizationServiceV2 c = (NewServiceClient orgV2_pb conn, c)"
    by (simp add: accessor_defs) (simp add: C)
  from 1 2 3 show ?thesis by blast
qed

theorem accessors_return_stored_stub_witness:
  "\<exists>c s'. New exampleCredentials exampleDial exampleStub 0 exampleEndpoint []
            \<lparr>world = 0, calls = []\<rparr> = ((Some c, None), s')
     \<and> length (accessors :: ((service \<times> nat option) Client
           \<Rightarrow> (service \<times> nat option) option \<times> (service \<times> nat option) Client) list) = 14
     \<and> list_all (\<lambda>acc. snd (acc c) = c \<and> acc (snd (acc c)) = acc c) accessors
     \<and> (\<exists>conn. SystemService c = (Some (system_pb, conn), c)
            \<and> AuthService c = (Some (auth_pb, conn), c)
            \<and> OIDCServiceV2 c = (Some (oidcV2_pb, conn), c))"
proof -
  from example_run obtain c s' where
    run: "New exampleCredentials exampleDial exampleStub 0 exampleEndpoint []
            \<lparr>world = 0, calls = []\<rparr> = ((Some c, None), s')"
    by blast
  from accessors_return_stored_stub [OF run]
  have "length (accessors :: ((service \<times> nat option) Client
           \<Rightarrow> (service \<times> nat option) option \<times> (service \<times> nat option) Client) list) = 14
     \<and> list_all (\<lambda>acc. snd (acc c) = c \<and> acc (snd (acc c)) = acc c) accessors
     \<and> (\<exists>conn. SystemService c = (Some (system_pb, conn), c)
            \<and> AuthService c = (Some (auth_pb, conn), c)
            \<and> OIDCServiceV2 c = (Some (oidcV2_pb, conn), c))"
    by (auto simp: exampleStub_def)
  with run show ?thesis by blast
qed

subsection \<open>The credential provider that \<^verbatim>\<open>New\<close> attaches\<close>

text \<open>
  Claim C3. When \<^verbatim>\<open>New\<close> has obtained a token source, the credential provider it
  hands to the dial answers \<open>GetRequestMetadata\<close> with no error and a mapping of
  exactly one entry, under the key \<^verbatim>\<open>authorization\<close>, whose value is \<^verbatim>\<open>Bearer\<close>, a
  space, and the token that the token source issues at this very call.
\<close>

theorem GetRequestMetadata_bearer_token:
  fixes transportCredentials :: "string \<Rightarrow> bool \<Rightarrow> 'w \<Rightarrow> ('tc \<times> error option) \<times> 'w"
    and DialContext ::
      "'ctx \<Rightarrow> string \<Rightarrow> ('w, 'tc, 'o) DialOption list \<Rightarrow> 'w \<Rightarrow> ('conn option \<times> error option) \<times> 'w"
    and NewServiceClient :: "service \<Rightarrow> 'conn option \<Rightarrow> 'stub option"
    and rctx :: 'ctx
  assumes "tokenSourceObtained ctx z opts (world s) (Some ts) w1"
    and "transportCredentials (Domain z) (IsTLS z) w1 = ((t, None), w2)"
    and "ts w = (Inr tok, w')"
  shows "\<exists>c m.
      calls (snd (New transportCredentials DialContext NewServiceClient ctx z opts s)) =
        calls s @ initCalls ctx z opts @
          [TransportCredentialsCall (Domain z) (IsTLS z),
           DialContextCall ctx (Host z)
             (WithTransportCredentials t # WithPerRPCCredentials c
                # grpcDialOptions (applyOptions opts))]
      \<and> GetRequestMetadata rctx c w = ((m, None), w')
      \<and> dom m = {''authorization''}
      \<and> m ''authorization'' = Some (''Bearer '' @ tok)"
proof -
  let ?c = "\<lparr>tls = IsTLS z, tokenSource = Some ts\<rparr>"
  let ?m = "[''authorization'' \<mapsto> ''Bearer '' @ tok]"
  have 1: "calls (snd (New transportCredentials DialContext NewServiceClient ctx z opts s)) =
        calls s @ initCalls ctx z opts @
          [TransportCredentialsCall (Domain z) (IsTLS z),
           DialContextCall ctx (Host z)
             (WithTransportCredentials t # WithPerRPCCredentials ?c
                # grpcDialOptions (applyOptions opts))]"
    by (rule New_calls_dial [where transportCredentials = transportCredentials
          and DialContext = DialContext, OF assms(1,2)])
  have 2: "GetRequestMetadata rctx ?c w = ((?m, None), w')"
    using assms(3) by (rule GetRequestMetadata_Some)
  have 3: "dom ?m = {''authorization''}" by simp
  have 4: "?m ''authorization'' = Some (''Bearer '' @ tok)" by simp
  from 1 2 3 4 show ?thesis by blast
qed

theorem GetRequestMetadata_bearer_token_witness:
  "(\<exists>c m. calls (snd (New exampleCredentials exampleDial exampleStub 0 exampleEndpoint
                   [WithAuth (Some exampleInit)] \<lparr>world = 0, calls = []\<rparr>)) =
          [InitTokenSourceCall 0 ''https://example.com:443'',
           TransportCredentialsCall ''example.com'' True,
           DialContextCall 0 ''example.com:443''
             [WithTransportCredentials True, WithPerRPCCredentials c]]
      \<and> GetRequestMetadata (1::nat) c 0 = ((m, None), 1)
      \<and> dom m = {''authorization''}
      \<and> m ''authorization'' = Some ''Bearer tok123'')
   \<and> (\<exists>c m. calls (snd (New exampleCredentials exampleDial exampleStub 0 exampleEndpoint
                   [WithAuth (Some exampleInit)] \<lparr>world = 0, calls = []\<rparr>)) =
          [InitTokenSourceCall 0 ''https://example.com:443'',
           TransportCredentialsCall ''example.com'' True,
           DialContextCall 0 ''example.com:443''
             [WithTransportCredentials True, WithPerRPCCredentials c]]
      \<and> GetRequestMetadata (2::nat) c 1 = ((m, None), 2)
      \<and> dom m = {''authorization''}
      \<and> m ''authorization'' = Some ''Bearer tok456'')"
proof -
  have T: "exampleCredentials (Domain exampleEndpoint) (IsTLS exampleEndpoint) 1 =
      ((True, None), 2)"
    by (simp add: exampleCredentials_def exampleEndpoint_def)
  have t0: "exampleTokens 0 = (Inr ''tok123'', 1)"
    by (simp add: exampleTokens_def)
  have t1: "exampleTokens 1 = (Inr ''tok456'', 2)"
    by (simp add: exampleTokens_def)
  have ic: "initCalls 0 exampleEndpoint
      ([WithAuth (Some exampleInit)] :: (nat, nat, bool, string) Option list) =
      [InitTokenSourceCall 0 ''https://example.com:443'']"
    by (simp add: initCalls_def applyOptions_WithAuth exampleEndpoint_def)
  have ao: "grpcDialOptions (applyOptions
      ([WithAuth (Some exampleInit)] :: (nat, nat, bool, string) Option list)) = []"
    by (simp add: applyOptions_WithAuth)
  have ep: "Domain exampleEndpoint = ''example.com''" "IsTLS exampleEndpoint"
    "Host exampleEndpoint = ''example.com:443''"
    by (simp_all add: exampleEndpoint_def)
  have A: "\<exists>c m. calls (snd (New exampleCredentials exampleDial exampleStub 0 exampleEndpoint
                   [WithAuth (Some exampleInit)] \<lparr>world = 0, calls = []\<rparr>)) =
          [InitTokenSourceCall 0 ''https://example.com:443'',
           TransportCredentialsCall ''example.com'' True,
           DialContextCall 0 ''example.com:443''
             [WithTransportCredentials True, WithPerRPCCredentials c]]
      \<and> GetRequestMetadata (1::nat) c 0 = ((m, None), 1)
      \<and> dom m = {''authorization''}
      \<and> m ''authorization'' = Some ''Bearer tok123''"
    using GetRequestMetadata_bearer_token [where transportCredentials = exampleCredentials
      and DialContext = exampleDial and NewServiceClient = exampleStub and rctx = 1,
      OF example_auth_obtained T t0]
    by (simp only: ic ao ep state.simps append.simps)
  have B: "\<exists>c m. calls (snd (New exampleCredentials exampleDial exampleStub 0 exampleEndpoint
                   [WithAuth (Some exampleInit)] \<lparr>world = 0, calls = []\<rparr>)) =
          [InitTokenSourceCall 0 ''https://example.com:443'',
           TransportCredentialsCall ''example.com'' True,
           DialContextCall 0 ''example.com:443''
             [WithTransportCredentials True, WithPerRPCCredentials c]]
      \<and> GetRequestMetadata (2::nat) c 1 = ((m, None), 2)
      \<and> dom m = {''authorization''}
      \<and> m ''authorization'' = Some ''Bearer tok456''"
    using GetRequestMetadata_bearer_token [where transportCredentials = exampleCredentials
      and DialContext = exampleDial and NewServiceClient = exampleStub and rctx = 2,
      OF example_auth_obtained T t1]
    by (simp only: ic ao ep state.simps append.simps)
  from A B show ?thesis by (rule conjI)
qed

text \<open>
  Claim C4. When \<^verbatim>\<open>New\<close> has no token source (no initializer is configured, or the
  initializer returned \<^verbatim>\<open>nil\<close>), the credential provider it hands to the dial
  answers every \<open>GetRequestMetadata\<close> with the empty mapping and no error, and leaves
  the world as it is. The endpoint is arbitrary, so this holds with TLS and without.
\<close>

theorem GetRequestMetadata_without_token_source:
  fixes transportCredentials :: "string \<Rightarrow> bool \<Rightarrow> 'w \<Rightarrow> ('tc \<times> error option) \<times> 'w"
    and DialContext ::
      "'ctx \<Rightarrow> string \<Rightarrow> ('w, 'tc, 'o) DialOption list \<Rightarrow> 'w \<Rightarrow> ('conn option \<times> error option) \<times> 'w"
    and NewServiceClient :: "service \<Rightarrow> 'conn option \<Rightarrow> 'stub option"
  assumes "tokenSourceObtained ctx z opts (world s) None w1"
    and "transportCredentials (Domain z) (IsTLS z) w1 = ((t, None), w2)"
  shows "\<exists>c.
      calls (snd (New transportCredentials DialContext NewServiceClient ctx z opts s)) =
        calls s @ initCalls ctx z opts @
          [TransportCredentialsCall (Domain z) (IsTLS z),
           DialContextCall ctx (Host z)
             (WithTransportCredentials t # WithPerRPCCredentials c
                # grpcDialOptions (applyOptions opts))]
      \<and> tls c = IsTLS z
      \<and> (\<forall>(rctx :: 'ctx) w. GetRequestMetadata rctx c w = ((Map.empty, None), w))"
proof -
  let ?c = "\<lparr>tls = IsTLS z, tokenSource = None :: 'w TokenSource option\<rparr>"
  have 1: "calls (snd (New transportCredentials DialContext NewServiceClient ctx z opts s)) =
        calls s @ initCalls ctx z opts @
          [TransportCredentialsCall (Domain z) (IsTLS z),
           DialContextCall ctx (Host z)
             (WithTransportCredentials t # WithPerRPCCredentials ?c
                # grpcDialOptions (applyOptions opts))]"
    by (rule New_calls_dial [where transportCredentials = transportCredentials
          and DialContext = DialContext, OF assms(1,2)])
  have 2: "\<forall>(rctx :: 'ctx) w. GetRequestMetadata rctx ?c w = ((Map.empty, None), w)"
    by (simp add: GetRequestMetadata_None)
  have 3: "tls ?c = IsTLS z" by simp
  from 1 2 3 show ?thesis by blast
qed

theorem GetRequestMetadata_without_token_source_witness:
  "(\<exists>c. calls (snd (New exampleCredentials exampleDial exampleStub 0 exampleEndpoint []
                   \<lparr>world = 0, calls = []\<rparr>)) =
          [TransportCredentialsCall ''example.com'' True,
           DialContextCall 0 ''example.com:443''
             [WithTransportCredentials True, WithPerRPCCredentials c]]
      \<and> tls c
      \<and> GetRequestMetadata (1::nat) c 0 = ((Map.empty, None), 0))
   \<and> (\<exists>c. calls (snd (New exampleCredentials exampleDial exampleStub 0 plainEndpoint []
                   \<lparr>world = 0, calls = []\<rparr>)) =
          [TransportCredentialsCall ''localhost'' False,
           DialContextCall 0 ''localhost:8080''
             [WithTransportCredentials False, WithPerRPCCredentials c]]
      \<and> \<not> tls c
      \<and> GetRequestMetadata (1::nat) c 0 = ((Map.empty, None), 0))"
proof -
  have T: "exampleCredentials (Domain exampleEndpoint) (IsTLS exampleEndpoint) 0 =
      ((True, None), 1)"
    by (simp add: exampleCredentials_def exampleEndpoint_def)
  have T': "exampleCredentials (Domain plainEndpoint) (IsTLS plainEndpoint) 0 =
      ((False, None), 1)"
    by (simp add: exampleCredentials_def plainEndpoint_def)
  from GetRequestMetadata_without_token_source [where transportCredentials = exampleCredentials
      and DialContext = exampleDial and NewServiceClient = exampleStub,
      OF example_none_obtained T]
  have A: "\<exists>c. calls (snd (New exampleCredentials exampleDial exampleStub 0 exampleEndpoint []
                   \<lparr>world = 0, calls = []\<rparr>)) =
          [TransportCredentialsCall ''example.com'' True,
           DialContextCall 0 ''example.com:443''
             [WithTransportCredentials True, WithPerRPCCredentials c]]
      \<and> tls c
      \<and> GetRequestMetadata (1::nat) c 0 = ((Map.empty, None), 0)"
    by (auto simp: initCalls_def applyOptions_Nil exampleEndpoint_def)
  from GetRequestMetadata_without_token_source [where transportCredentials = exampleCredentials
      and DialContext = exampleDial and NewServiceClient = exampleStub,
      OF example_none_obtained T']
  have B: "\<exists>c. calls (snd (New exampleCredentials exampleDial exampleStub 0 plainEndpoint []
                   \<lparr>world = 0, calls = []\<rparr>)) =
          [TransportCredentialsCall ''localhost'' False,
           DialContextCall 0 ''localhost:8080''
             [WithTransportCredentials False, WithPerRPCCredentials c]]
      \<and> \<not> tls c
      \<and> GetRequestMetadata (1::nat) c 0 = ((Map.empty, None), 0)"
    by (auto simp: initCalls_def applyOptions_Nil plainEndpoint_def)
  from A B show ?thesis by blast
qed

text \<open>
  Claim C5. The credential provider that \<^verbatim>\<open>New\<close> hands to the dial requires
  transport security if and only if the endpoint is configured with TLS, whatever the
  token source is, present or absent.
\<close>

theorem RequiresTransportSecurity_iff_IsTLS:
  fixes transportCredentials :: "string \<Rightarrow> bool \<Rightarrow> 'w \<Rightarrow> ('tc \<times> error option) \<times> 'w"
    and DialContext ::
      "'ctx \<Rightarrow> string \<Rightarrow> ('w, 'tc, 'o) DialOption list \<Rightarrow> 'w \<Rightarrow> ('conn option \<times> error option) \<times> 'w"
    and NewServiceClient :: "service \<Rightarrow> 'conn option \<Rightarrow> 'stub option"
  assumes "tokenSourceObtained ctx z opts (world s) src w1"
    and "transportCredentials (Domain z) (IsTLS z) w1 = ((t, None), w2)"
  shows "\<exists>c.
      calls (snd (New transportCredentials DialContext NewServiceClient ctx z opts s)) =
        calls s @ initCalls ctx z opts @
          [TransportCredentialsCall (Domain z) (IsTLS z),
           DialContextCall ctx (Host z)
             (WithTransportCredentials t # WithPerRPCCredentials c
                # grpcDialOptions (applyOptions opts))]
      \<and> tokenSource c = src
      \<and> RequiresTransportSecurity c = IsTLS z"
proof -
  let ?c = "\<lparr>tls = IsTLS z, tokenSource = src\<rparr>"
  have 1: "calls (snd (New transportCredentials DialContext NewServiceClient ctx z opts s)) =
        calls s @ initCalls ctx z opts @
          [TransportCredentialsCall (Domain z) (IsTLS z),
           DialContextCall ctx (Host z)
             (WithTransportCredentials t # WithPerRPCCredentials ?c
                # grpcDialOptions (applyOptions opts))]"
    by (rule New_calls_dial [where transportCredentials = transportCredentials
          and DialContext = DialContext, OF assms(1,2)])
  have 2: "tokenSource ?c = src" by simp
  have 3: "RequiresTransportSecurity ?c = IsTLS z" by (simp add: RequiresTransportSecurity_def)
  from 1 2 3 show ?thesis by blast
qed

theorem RequiresTransportSecurity_iff_IsTLS_witness:
  "(\<exists>c. calls (snd (New exampleCredentials exampleDial exampleStub 0 exampleEndpoint []
                   \<lparr>world = 0, calls = []\<rparr>)) =
          [TransportCredentialsCall ''example.com'' True,
           DialContextCall 0 ''example.com:443''
             [WithTransportCredentials True, WithPerRPCCredentials c]]
      \<and> tokenSource c = None
      \<and> RequiresTransportSecurity c)
   \<and> (\<exists>c. calls (snd (New exampleCredentials exampleDial exampleStub 0 plainEndpoint
                   [WithAuth (Some exampleInit)] \<lparr>world = 0, calls = []\<rparr>)) =
          [InitTokenSourceCall 0 ''http://localhost:8080'',
           TransportCredentialsCall ''localhost'' False,
           DialContextCall 0 ''localhost:8080''
             [WithTransportCredentials False, WithPerRPCCredentials c]]
      \<and> tokenSource c = Some exampleTokens
      \<and> \<not> RequiresTransportSecurity c)"
proof -
  have T: "exampleCredentials (Domain exampleEndpoint) (IsTLS exampleEndpoint) 0 =
      ((True, None), 1)"
    by (simp add: exampleCredentials_def exampleEndpoint_def)
  have T': "exampleCredentials (Domain plainEndpoint) (IsTLS plainEndpoint) 1 =
      ((False, None), 2)"
    by (simp add: exampleCredentials_def plainEndpoint_def)
  from RequiresTransportSecurity_iff_IsTLS [where transportCredentials = exampleCredentials
      and DialContext = exampleDial and NewServiceClient = exampleStub,
      OF example_none_obtained T]
  have A: "\<exists>c. calls (snd (New exampleCredentials exampleDial exampleStub 0 exampleEndpoint []
                   \<lparr>world = 0, calls = []\<rparr>)) =
          [TransportCredentialsCall ''example.com'' True,
           DialContextCall 0 ''example.com:443''
             [WithTransportCredentials True, WithPerRPCCredentials c]]
      \<and> tokenSource c = None
      \<and> RequiresTransportSecurity c"
    by (auto simp: initCalls_def applyOptions_Nil exampleEndpoint_def)
  from RequiresTransportSecurity_iff_IsTLS [where transportCredentials = exampleCredentials
      and DialContext = exampleDial and NewServiceClient = exampleStub,
      OF example_auth_obtained T']
  have B: "\<exists>c. calls (snd (New exampleCredentials exampleDial exampleStub 0 plainEndpoint
                   [WithAuth (Some exampleInit)] \<lparr>world = 0, calls = []\<rparr>)) =
          [InitTokenSourceCall 0 ''http://localhost:8080'',
           TransportCredentialsCall ''localhost'' False,
           DialContextCall 0 ''localhost:8080''
             [WithTransportCredentials False, WithPerRPCCredentials c]]
      \<and> tokenSource c = Some exampleTokens
      \<and> \<not> RequiresTransportSecurity c"
    by (auto simp: initCalls_def applyOptions_WithAuth plainEndpoint_def)
  from A B show ?thesis by blast
qed

end
